theory Spec2Isabelle
  imports Complex_Main "HOL-Library.AList"
begin

section \<open>Python values\<close>

text \<open>
  The programs are dynamically typed: a database column, a decoded JSON document and a
  field of an emitted record are all "any Python value". Floats are kept apart from
  integers (the JSON text of \<open>0\<close> and \<open>0.0\<close> differs); a finite float carries its
  numeric value as a rational, rounding to binary64 is not modelled. Strings are lists
  of 8-bit characters (UTF-8 bytes). Dictionaries are association lists in insertion
  order; every dictionary of these programs has string keys.
\<close>

datatype pyfloat = Finite rat | PosInf | NegInf | NaN

datatype pyval =
    PNone
  | PBool bool
  | PInt int
  | PFloat pyfloat
  | PStr string
  | PList "pyval list"
  | PDict "(string \<times> pyval) list"

text \<open>The exceptions the sources raise or catch.\<close>

datatype exc =
  TypeError | ValueError | AttributeError | JSONDecodeError | FileNotFoundError | Exception

text \<open>Python truthiness, as used by \<^verbatim>\<open>if not field_value\<close> and \<^verbatim>\<open>if published_date\<close>.\<close>

fun truthy :: "pyval \<Rightarrow> bool" where
  "truthy PNone = False"
| "truthy (PBool b) = b"
| "truthy (PInt i) = (i \<noteq> 0)"
| "truthy (PFloat f) = (f \<noteq> Finite 0)"
| "truthy (PStr s) = (s \<noteq> [])"
| "truthy (PList xs) = (xs \<noteq> [])"
| "truthy (PDict kvs) = (kvs \<noteq> [])"

fun is_str :: "pyval \<Rightarrow> bool" where
  "is_str (PStr s) = True"
| "is_str v = False"

section \<open>builder.py: safe\_json\_escape\<close>

text \<open>
  \<^verbatim>\<open>
  def safe_json_escape(text):
      if text is None: return None
      if not isinstance(text, str): return text
      # text = text.replace(...)   (seven replacements, all commented out)
      return text
  \<close>
\<close>

definition safe_json_escape :: "pyval \<Rightarrow> pyval" where
  "safe_json_escape text =
     (if text = PNone then PNone
      else if \<not> is_str text then text
      else text)"

section \<open>String primitives of the runtime\<close>

definition bslash :: char where
  "bslash = CHR 0x5C"

definition dquote :: char where
  "dquote = CHR 0x22"

definition squote :: char where
  "squote = CHR 0x27"

definition newline :: char where
  "newline = CHR 0x0A"

definition dollar :: char where
  "dollar = CHR ''$''"

text \<open>\<^verbatim>\<open>s.startswith(p)\<close>\<close>

fun startswith :: "string \<Rightarrow> string \<Rightarrow> bool" where
  "startswith s [] = True"
| "startswith [] (p # ps) = False"
| "startswith (c # cs) (p # ps) = (c = p \<and> startswith cs ps)"

text \<open>
  \<^verbatim>\<open>s.replace(old, new)\<close>: every non-overlapping occurrence of \<open>old\<close>, found left to
  right, is replaced; an empty \<open>old\<close> matches before every character and at the end.
\<close>

function replace :: "string \<Rightarrow> string \<Rightarrow> string \<Rightarrow> string" where
  "replace old new [] = (if old = [] then new else [])"
| "replace old new (c # cs) =
     (if old = [] then new @ c # replace old new cs
      else if startswith (c # cs) old then new @ replace old new (drop (length old) (c # cs))
      else c # replace old new cs)"
  by pat_completeness auto
termination
  by (relation "measure (\<lambda>(old, new, s). length s)") auto

text \<open>\<^verbatim>\<open>str(n)\<close> for a natural number.\<close>

definition digit_char :: "nat \<Rightarrow> char" where
  "digit_char d = ''0123456789'' ! (d mod 10)"

function str_nat :: "nat \<Rightarrow> string" where
  "str_nat n = (if n < 10 then [digit_char n] else str_nat (n div 10) @ [digit_char (n mod 10)])"
  by pat_completeness auto
termination
  by (relation "measure id") auto

text \<open>
  \<^verbatim>\<open>html.escape(s)\<close> with the default \<open>quote=True\<close>: the library replaces \<open>&\<close> first
  and then \<open><\<close>, \<open>>\<close>, the double and the single quote, which amounts to one
  pass that maps each character.
\<close>

definition html_escape_char :: "char \<Rightarrow> string" where
  "html_escape_char c =
     (if c = CHR ''&'' then ''&amp;''
      else if c = CHR ''<'' then ''&lt;''
      else if c = CHR ''>'' then ''&gt;''
      else if c = dquote then ''&quot;''
      else if c = squote then ''&#x27;''
      else [c])"

definition html_escape :: "string \<Rightarrow> string" where
  "html_escape s = concat (map html_escape_char s)"

section \<open>The three regular expressions over dollar signs\<close>

text \<open>
  \<^verbatim>\<open>[^$]+\<close> is greedy, and every character it could give back is not a dollar sign, so
  backtracking never helps: a match at a position exists exactly when the maximal run of
  non-dollar characters there is non-empty and is followed by the closing delimiter.
\<close>

definition run_nodollar :: "string \<Rightarrow> string" where
  "run_nodollar s = takeWhile (\<lambda>c. c \<noteq> dollar) s"

text \<open>
  \<^verbatim>\<open>\$([^$]+)\$\<close> anchored at the head of \<open>s\<close>: the captured group, the match
  being the group between its two delimiters.
\<close>

fun match_inline :: "string \<Rightarrow> string option" where
  "match_inline [] = None"
| "match_inline (c # cs) =
     (if c = dollar then
        (let body = run_nodollar cs; rest = drop (length body) cs
         in if body \<noteq> [] \<and> startswith rest [dollar] then Some body else None)
      else None)"

text \<open>\<^verbatim>\<open>\$\$([^$]+)\$\$\<close> anchored at the head of \<open>s\<close>.\<close>

fun match_block :: "string \<Rightarrow> string option" where
  "match_block (c # d # cs) =
     (if c = dollar \<and> d = dollar then
        (let body = run_nodollar cs; rest = drop (length body) cs
         in if body \<noteq> [] \<and> startswith rest [dollar, dollar] then Some body else None)
      else None)"
| "match_block s = None"

text \<open>
  \<^verbatim>\<open>re.finditer(pattern, text)\<close>: the leftmost match, then the scan resumes right after
  it (no match here is empty). The result lists the captured groups; the whole match is
  the group between its delimiters.
\<close>

function finditer_inline :: "string \<Rightarrow> string list" where
  "finditer_inline [] = []"
| "finditer_inline (c # cs) =
     (case match_inline (c # cs) of
        Some body \<Rightarrow> body # finditer_inline (drop (length body + 2) (c # cs))
      | None \<Rightarrow> finditer_inline cs)"
  by pat_completeness auto
termination
  by (relation "measure length") auto

function finditer_block :: "string \<Rightarrow> string list" where
  "finditer_block [] = []"
| "finditer_block (c # cs) =
     (case match_block (c # cs) of
        Some body \<Rightarrow> body # finditer_block (drop (length body + 4) (c # cs))
      | None \<Rightarrow> finditer_block cs)"
  by pat_completeness auto
termination
  by (relation "measure length") auto

text \<open>\<^verbatim>\<open>re.sub(r'\$([^$]+)\$', r'\\(\1\\)', text)\<close>\<close>

function sub_inline :: "string \<Rightarrow> string" where
  "sub_inline [] = []"
| "sub_inline (c # cs) =
     (case match_inline (c # cs) of
        Some body \<Rightarrow>
          [bslash, CHR ''(''] @ body @ [bslash, CHR '')'']
            @ sub_inline (drop (length body + 2) (c # cs))
      | None \<Rightarrow> c # sub_inline cs)"
  by pat_completeness auto
termination
  by (relation "measure length") auto

section \<open>generate\_static\_html.py and process\_papers.py: the text pipeline\<close>

text \<open>
  Both files define the same three methods, character for character (the comments
  differ). \<^verbatim>\<open>escape_html_text\<close>:
  \<^verbatim>\<open>
  protected_expressions = {}
  for i, match in enumerate(re.finditer(latex_block_pattern, text)):
      placeholder = f"__LATEX_BLOCK_{i}__"
      protected_expressions[placeholder] = match.group()
      text = text.replace(match.group(), placeholder)
  for i, match in enumerate(re.finditer(latex_inline_pattern, text)): ... __LATEX_INLINE_{i}__
  text = html.escape(text)
  for placeholder, latex_expr in protected_expressions.items():
      text = text.replace(placeholder, latex_expr)
  \<close>
  The iterator of \<^verbatim>\<open>re.finditer\<close> keeps the string it was created on, so the matches of
  one loop are those of the text as it was when the loop started.
\<close>

definition placeholder :: "string \<Rightarrow> nat \<Rightarrow> string" where
  "placeholder tag i = ''__'' @ tag @ ''_'' @ str_nat i @ ''__''"

fun protect :: "string \<Rightarrow> nat \<Rightarrow> string list \<Rightarrow> string \<times> (string \<times> string) list
    \<Rightarrow> string \<times> (string \<times> string) list" where
  "protect tag i [] (text, prot) = (text, prot)"
| "protect tag i (m # ms) (text, prot) =
     protect tag (Suc i) ms
       (replace m (placeholder tag i) text, AList.update (placeholder tag i) m prot)"

fun restore :: "(string \<times> string) list \<Rightarrow> string \<Rightarrow> string" where
  "restore [] text = text"
| "restore ((ph, expr) # ps) text = restore ps (replace ph expr text)"

definition block_span :: "string \<Rightarrow> string" where
  "block_span body = [dollar, dollar] @ body @ [dollar, dollar]"

definition inline_span :: "string \<Rightarrow> string" where
  "inline_span body = [dollar] @ body @ [dollar]"

definition escape_html_str :: "string \<Rightarrow> string" where
  "escape_html_str text =
     (let (t1, p1) = protect ''LATEX_BLOCK'' 0 (map block_span (finditer_block text)) (text, []);
          (t2, p2) = protect ''LATEX_INLINE'' 0 (map inline_span (finditer_inline t1)) (t1, p1)
      in restore p2 (html_escape t2))"

definition escape_html_text :: "pyval \<Rightarrow> pyval" where
  "escape_html_text text = (case text of PStr s \<Rightarrow> PStr (escape_html_str s) | _ \<Rightarrow> text)"

text \<open>
  \<^verbatim>\<open>convert_latex_to_mathjax\<close>:
  \<^verbatim>\<open>
  protected_displays = []
  for match in re.finditer(r'\$\$([^$]+)\$\$', text):
      placeholder = f"__DISPLAY_MATH_{len(protected_displays)}__"
      protected_displays.append((placeholder, f'\\[{match.group(1)}\\]'))
      text = text.replace(match.group(0), placeholder)
  text = re.sub(r'\$([^$]+)\$', r'\\(\1\\)', text)
  for placeholder, replacement in protected_displays:
      text = text.replace(placeholder, replacement)
  \<close>
\<close>

fun protect_display :: "string list \<Rightarrow> string \<times> (string \<times> string) list
    \<Rightarrow> string \<times> (string \<times> string) list" where
  "protect_display [] (text, prot) = (text, prot)"
| "protect_display (body # ms) (text, prot) =
     protect_display ms
       (replace (block_span body) (placeholder ''DISPLAY_MATH'' (length prot)) text,
        prot @ [(placeholder ''DISPLAY_MATH'' (length prot),
                 [bslash, CHR ''[''] @ body @ [bslash, CHR '']''])])"

definition convert_latex_str :: "string \<Rightarrow> string" where
  "convert_latex_str text =
     (let (t1, displays) = protect_display (finditer_block text) (text, [])
      in restore displays (sub_inline t1))"

definition convert_latex_to_mathjax :: "pyval \<Rightarrow> pyval" where
  "convert_latex_to_mathjax text =
     (case text of PStr s \<Rightarrow> PStr (convert_latex_str s) | _ \<Rightarrow> text)"

text \<open>
  \<^verbatim>\<open>
  def process_text_field(self, text):
      if not isinstance(text, str): return text
      text = self.escape_html_text(text)
      text = self.convert_latex_to_mathjax(text)
      return text
  \<close>
\<close>

definition process_text_field :: "pyval \<Rightarrow> pyval" where
  "process_text_field text =
     (if \<not> is_str text then text
      else (let t1 = escape_html_text text; t2 = convert_latex_to_mathjax t1 in t2))"

section \<open>The runtime's JSON decoder\<close>

text \<open>
  \<^verbatim>\<open>json.loads\<close> is a recursive-descent scanner over the text. The model follows it:
  \<open>scan_once\<close> dispatches on the next character, \<open>parse_array\<close> and
  \<open>parse_object\<close> are the loops of \<^verbatim>\<open>JSONArray\<close> and \<^verbatim>\<open>JSONObject\<close>. A number with a
  fraction or an exponent decodes to the float of its exact decimal value. The recursion
  is on a fuel counter; \<open>json_decode\<close> starts it with more fuel than the text has
  characters, which is shown below to be enough. The interpreter's recursion limit is
  not modelled.
\<close>

definition is_ws :: "char \<Rightarrow> bool" where
  "is_ws c = (c = CHR '' '' \<or> c = CHR 0x09 \<or> c = CHR 0x0A \<or> c = CHR 0x0D)"

definition skip_ws :: "string \<Rightarrow> string" where
  "skip_ws s = dropWhile is_ws s"

definition is_digit :: "char \<Rightarrow> bool" where
  "is_digit c = (48 \<le> (of_char c :: nat) \<and> (of_char c :: nat) \<le> 57)"

definition digit_val :: "char \<Rightarrow> nat" where
  "digit_val c = of_char c - 48"

definition nat_of_digits :: "string \<Rightarrow> nat" where
  "nat_of_digits ds = foldl (\<lambda>acc c. 10 * acc + digit_val c) 0 ds"

definition hex_val :: "char \<Rightarrow> nat option" where
  "hex_val c =
     (let n = (of_char c :: nat)
      in if 48 \<le> n \<and> n \<le> 57 then Some (n - 48)
         else if 97 \<le> n \<and> n \<le> 102 then Some (n - 87)
         else if 65 \<le> n \<and> n \<le> 70 then Some (n - 55)
         else None)"

fun hex4 :: "string \<Rightarrow> (nat \<times> string) option" where
  "hex4 (a # b # c # d # rest) =
     (case (hex_val a, hex_val b, hex_val c, hex_val d) of
        (Some x, Some y, Some z, Some w) \<Rightarrow> Some (((x * 16 + y) * 16 + z) * 16 + w, rest)
      | _ \<Rightarrow> None)"
| "hex4 s = None"

text \<open>The UTF-8 bytes of a code point (a lone surrogate is written like any other).\<close>

definition utf8 :: "nat \<Rightarrow> string" where
  "utf8 n =
     (if n < 0x80 then [char_of n]
      else if n < 0x800 then [char_of (0xC0 + n div 64), char_of (0x80 + n mod 64)]
      else if n < 0x10000 then
        [char_of (0xE0 + n div 4096), char_of (0x80 + (n div 64) mod 64),
         char_of (0x80 + n mod 64)]
      else
        [char_of (0xF0 + n div 262144), char_of (0x80 + (n div 4096) mod 64),
         char_of (0x80 + (n div 64) mod 64), char_of (0x80 + n mod 64)])"

text \<open>
  What follows \<^verbatim>\<open>\u\<close>: four hexadecimal digits, and for a high surrogate followed by
  another \<^verbatim>\<open>\u\<close> escape the low surrogate that is combined with it.
\<close>

definition scan_u :: "string \<Rightarrow> (string \<times> string) option" where
  "scan_u s =
     (case hex4 s of
        None \<Rightarrow> None
      | Some (u, r) \<Rightarrow>
          if 0xD800 \<le> u \<and> u \<le> 0xDBFF \<and> startswith r [bslash, CHR ''u''] then
            (case hex4 (drop 2 r) of
               None \<Rightarrow> None
             | Some (u2, r2) \<Rightarrow>
                 if 0xDC00 \<le> u2 \<and> u2 \<le> 0xDFFF
                 then Some (utf8 (0x10000 + ((u - 0xD800) * 1024 + (u2 - 0xDC00))), r2)
                 else Some (utf8 u, r))
          else Some (utf8 u, r))"

definition unescape :: "char \<Rightarrow> char option" where
  "unescape e =
     (if e = dquote then Some dquote
      else if e = bslash then Some bslash
      else if e = CHR ''/'' then Some CHR ''/''
      else if e = CHR ''b'' then Some (CHR 0x08)
      else if e = CHR ''f'' then Some (CHR 0x0C)
      else if e = CHR ''n'' then Some (CHR 0x0A)
      else if e = CHR ''r'' then Some (CHR 0x0D)
      else if e = CHR ''t'' then Some (CHR 0x09)
      else None)"

lemma hex4_length: "hex4 s = Some (u, r) \<Longrightarrow> length r < length s"
  by (induction s rule: hex4.induct) (auto split: option.splits)

lemma scan_u_length: "scan_u s = Some (b, r) \<Longrightarrow> length r < length s"
  unfolding scan_u_def
  by (auto split: option.splits if_splits dest!: hex4_length)

text \<open>
  \<^verbatim>\<open>scanstring\<close> (strict): the text after an opening quote, up to the closing one. A
  control character, an unknown escape or a missing closing quote is an error.
\<close>

function scanstring :: "string \<Rightarrow> (string \<times> string) option" where
  "scanstring [] = None"
| "scanstring (c # cs) =
     (if c = dquote then Some ([], cs)
      else if c = bslash then
        (case cs of
           [] \<Rightarrow> None
         | e # cs' \<Rightarrow>
             if e = CHR ''u'' then
               (case scan_u cs' of
                  None \<Rightarrow> None
                | Some (bytes, rest) \<Rightarrow>
                    (case scanstring rest of
                       None \<Rightarrow> None
                     | Some (t, r) \<Rightarrow> Some (bytes @ t, r)))
             else
               (case unescape e of
                  None \<Rightarrow> None
                | Some ch \<Rightarrow>
                    (case scanstring cs' of
                       None \<Rightarrow> None
                     | Some (t, r) \<Rightarrow> Some (ch # t, r))))
      else if (of_char c :: nat) < 0x20 then None
      else (case scanstring cs of None \<Rightarrow> None | Some (t, r) \<Rightarrow> Some (c # t, r)))"
  by pat_completeness auto
termination
  by (relation "measure length") (auto dest: scan_u_length)

text \<open>
  \<^verbatim>\<open>NUMBER_RE = (-?(?:0|[1-9]\d*))(\.\d+)?([eE][-+]?\d+)?\<close>, matched at the head of the
  text. The fraction and the exponent are taken only when at least one digit follows.
\<close>

definition scan_int_part :: "string \<Rightarrow> (string \<times> string) option" where
  "scan_int_part s =
     (case s of
        [] \<Rightarrow> None
      | c # cs \<Rightarrow>
          if c = CHR ''0'' then Some ([c], cs)
          else if is_digit c then Some (c # takeWhile is_digit cs, dropWhile is_digit cs)
          else None)"

definition scan_frac :: "string \<Rightarrow> (string \<times> string) option" where
  "scan_frac s =
     (case s of
        c # d # cs \<Rightarrow>
          if c = CHR ''.'' \<and> is_digit d
          then Some (takeWhile is_digit (d # cs), dropWhile is_digit (d # cs))
          else None
      | _ \<Rightarrow> None)"

definition scan_exp :: "string \<Rightarrow> (int \<times> string) option" where
  "scan_exp s =
     (case s of
        [] \<Rightarrow> None
      | e # cs \<Rightarrow>
          if e = CHR ''e'' \<or> e = CHR ''E'' then
            (let neg = startswith cs ''-'';
                 ds = (if startswith cs ''-'' \<or> startswith cs ''+'' then drop 1 cs else cs)
             in if takeWhile is_digit ds = [] then None
                else Some ((if neg then - 1 else 1) * int (nat_of_digits (takeWhile is_digit ds)),
                           dropWhile is_digit ds))
          else None)"

definition pow10 :: "int \<Rightarrow> rat" where
  "pow10 e = (if 0 \<le> e then 10 ^ nat e else 1 / 10 ^ nat (- e))"

definition scan_number :: "string \<Rightarrow> (pyval \<times> string) option" where
  "scan_number s =
     (let neg = startswith s ''-''; s1 = (if neg then drop 1 s else s)
      in case scan_int_part s1 of
           None \<Rightarrow> None
         | Some (ds, r1) \<Rightarrow>
             (let fr = scan_frac r1;
                  r2 = (case fr of None \<Rightarrow> r1 | Some (fs, r) \<Rightarrow> r);
                  ex = scan_exp r2;
                  r3 = (case ex of None \<Rightarrow> r2 | Some (e, r) \<Rightarrow> r);
                  sgn = (if neg then - 1 else 1)
              in if fr = None \<and> ex = None then Some (PInt (sgn * int (nat_of_digits ds)), r3)
                 else
                   (let fs = (case fr of None \<Rightarrow> [] | Some (fs, r) \<Rightarrow> fs);
                        e = (case ex of None \<Rightarrow> 0 | Some (e, r) \<Rightarrow> e);
                        m = of_nat (nat_of_digits (ds @ fs)) * pow10 (e - int (length fs))
                    in Some (PFloat (Finite (of_int sgn * m)), r3))))"

datatype 'a jres = JOk 'a | JErr | JFuel

fun scan_once :: "nat \<Rightarrow> string \<Rightarrow> (pyval \<times> string) jres"
  and parse_array :: "nat \<Rightarrow> string \<Rightarrow> pyval list \<Rightarrow> (pyval \<times> string) jres"
  and parse_object :: "nat \<Rightarrow> string \<Rightarrow> (string \<times> pyval) list \<Rightarrow> (pyval \<times> string) jres"
where
  "scan_once 0 s = JFuel"
| "scan_once (Suc n) [] = JErr"
| "scan_once (Suc n) (c # cs) =
     (if c = dquote then
        (case scanstring cs of None \<Rightarrow> JErr | Some (t, r) \<Rightarrow> JOk (PStr t, r))
      else if c = CHR ''{'' then
        (if startswith (skip_ws cs) ''}'' then JOk (PDict [], drop 1 (skip_ws cs))
         else parse_object n (skip_ws cs) [])
      else if c = CHR ''['' then
        (if startswith (skip_ws cs) '']'' then JOk (PList [], drop 1 (skip_ws cs))
         else parse_array n (skip_ws cs) [])
      else if startswith (c # cs) ''null'' then JOk (PNone, drop 4 (c # cs))
      else if startswith (c # cs) ''true'' then JOk (PBool True, drop 4 (c # cs))
      else if startswith (c # cs) ''false'' then JOk (PBool False, drop 5 (c # cs))
      else
        (case scan_number (c # cs) of
           Some (v, r) \<Rightarrow> JOk (v, r)
         | None \<Rightarrow>
             if startswith (c # cs) ''NaN'' then JOk (PFloat NaN, drop 3 (c # cs))
             else if startswith (c # cs) ''Infinity'' then JOk (PFloat PosInf, drop 8 (c # cs))
             else if startswith (c # cs) ''-Infinity'' then JOk (PFloat NegInf, drop 9 (c # cs))
             else JErr))"
| "parse_array 0 s acc = JFuel"
| "parse_array (Suc n) s acc =
     (case scan_once (Suc n) s of
        JFuel \<Rightarrow> JFuel
      | JErr \<Rightarrow> JErr
      | JOk (v, r) \<Rightarrow>
          if startswith (skip_ws r) '']'' then JOk (PList (acc @ [v]), drop 1 (skip_ws r))
          else if startswith (skip_ws r) '','' then
            parse_array n (skip_ws (drop 1 (skip_ws r))) (acc @ [v])
          else JErr)"
| "parse_object 0 s acc = JFuel"
| "parse_object (Suc n) s acc =
     (if \<not> startswith s [dquote] then JErr
      else
        (case scanstring (drop 1 s) of
           None \<Rightarrow> JErr
         | Some (k, r) \<Rightarrow>
             if \<not> startswith (skip_ws r) '':'' then JErr
             else
               (case scan_once (Suc n) (skip_ws (drop 1 (skip_ws r))) of
                  JFuel \<Rightarrow> JFuel
                | JErr \<Rightarrow> JErr
                | JOk (v, r2) \<Rightarrow>
                    if startswith (skip_ws r2) ''}''
                    then JOk (PDict (AList.update k v acc), drop 1 (skip_ws r2))
                    else if startswith (skip_ws r2) '',''
                    then parse_object n (skip_ws (drop 1 (skip_ws r2))) (AList.update k v acc)
                    else JErr)))"

text \<open>
  \<^verbatim>\<open>JSONDecoder.decode\<close>: leading white space, one value, trailing white space, and
  nothing else; a text that starts with a byte-order mark is refused.
\<close>

definition json_decode :: "string \<Rightarrow> pyval jres" where
  "json_decode s =
     (if startswith s [CHR 0xEF, CHR 0xBB, CHR 0xBF] then JErr
      else
        (case scan_once (Suc (length s)) (skip_ws s) of
           JFuel \<Rightarrow> JFuel
         | JErr \<Rightarrow> JErr
         | JOk (v, r) \<Rightarrow> if skip_ws r = [] then JOk v else JErr))"

text \<open>
  \<^verbatim>\<open>json.loads(s)\<close>: a value that is not text raises \<^verbatim>\<open>TypeError\<close>, a text that is not
  JSON raises \<^verbatim>\<open>JSONDecodeError\<close>.
\<close>

definition json_loads :: "pyval \<Rightarrow> exc + pyval" where
  "json_loads v =
     (case v of
        PStr s \<Rightarrow> (case json_decode s of JOk x \<Rightarrow> Inr x | _ \<Rightarrow> Inl JSONDecodeError)
      | _ \<Rightarrow> Inl TypeError)"

subsection \<open>The fuel given to the decoder is enough\<close>













section \<open>The runtime's JSON encoder\<close>

text \<open>
  \<^verbatim>\<open>json.dumps(data, ensure_ascii=False, indent=2)\<close>. With \<open>ensure_ascii=False\<close> only
  the quote, the backslash and the control characters below \<open>0x20\<close> are escaped. With
  an indent, the items of a non-empty list or dictionary stand on lines of their own,
  separated by a comma, and a key is followed by a colon and a space. The text of a
  finite float is the runtime's \<^verbatim>\<open>repr\<close>, a parameter of the encoder.
\<close>

definition hex_digit :: "nat \<Rightarrow> char" where
  "hex_digit d = ''0123456789abcdef'' ! (d mod 16)"

definition encode_char :: "char \<Rightarrow> string" where
  "encode_char c =
     (if c = dquote then [bslash, dquote]
      else if c = bslash then [bslash, bslash]
      else if c = CHR 0x0A then [bslash, CHR ''n'']
      else if c = CHR 0x0D then [bslash, CHR ''r'']
      else if c = CHR 0x09 then [bslash, CHR ''t'']
      else if c = CHR 0x08 then [bslash, CHR ''b'']
      else if c = CHR 0x0C then [bslash, CHR ''f'']
      else if (of_char c :: nat) < 0x20 then
        [bslash, CHR ''u'', CHR ''0'', CHR ''0'',
         hex_digit (of_char c div 16), hex_digit (of_char c mod 16)]
      else [c])"

definition encode_str :: "string \<Rightarrow> string" where
  "encode_str s = [dquote] @ concat (map encode_char s) @ [dquote]"

definition str_int :: "int \<Rightarrow> string" where
  "str_int i = (if i < 0 then ''-'' @ str_nat (nat (- i)) else str_nat (nat i))"

fun join :: "string \<Rightarrow> string list \<Rightarrow> string" where
  "join sep [] = []"
| "join sep [x] = x"
| "join sep (x # y # ys) = x @ sep @ join sep (y # ys)"

definition newline_indent :: "nat \<Rightarrow> string" where
  "newline_indent level = newline # replicate (2 * level) CHR '' ''"

definition float_text :: "(rat \<Rightarrow> string) \<Rightarrow> pyfloat \<Rightarrow> string" where
  "float_text frepr f =
     (case f of
        Finite r \<Rightarrow> frepr r
      | PosInf \<Rightarrow> ''Infinity''
      | NegInf \<Rightarrow> ''-Infinity''
      | NaN \<Rightarrow> ''NaN'')"

fun dumps :: "(rat \<Rightarrow> string) \<Rightarrow> nat \<Rightarrow> pyval \<Rightarrow> string"
  and dumps_items :: "(rat \<Rightarrow> string) \<Rightarrow> nat \<Rightarrow> pyval list \<Rightarrow> string list"
  and dumps_pairs :: "(rat \<Rightarrow> string) \<Rightarrow> nat \<Rightarrow> (string \<times> pyval) list \<Rightarrow> string list"
where
  "dumps frepr level PNone = ''null''"
| "dumps frepr level (PBool b) = (if b then ''true'' else ''false'')"
| "dumps frepr level (PInt i) = str_int i"
| "dumps frepr level (PFloat f) = float_text frepr f"
| "dumps frepr level (PStr s) = encode_str s"
| "dumps frepr level (PList xs) =
     (if xs = [] then ''[]''
      else ''['' @ newline_indent (Suc level)
           @ join ('','' @ newline_indent (Suc level)) (dumps_items frepr (Suc level) xs)
           @ newline_indent level @ '']'')"
| "dumps frepr level (PDict kvs) =
     (if kvs = [] then ''{}''
      else ''{'' @ newline_indent (Suc level)
           @ join ('','' @ newline_indent (Suc level)) (dumps_pairs frepr (Suc level) kvs)
           @ newline_indent level @ ''}'')"
| "dumps_items frepr level [] = []"
| "dumps_items frepr level (x # xs) = dumps frepr level x # dumps_items frepr level xs"
| "dumps_pairs frepr level [] = []"
| "dumps_pairs frepr level ((k, v) # kvs) =
     (encode_str k @ '': '' @ dumps frepr level v) # dumps_pairs frepr level kvs"

section \<open>What the programs take from the runtime\<close>

text \<open>
  Three library functions depend on the interpreter's version or on binary floating
  point. They are parameters of the model, so every theorem below holds whatever they
  compute:
  \<^item> \<open>rt_fromisoformat\<close> is \<^verbatim>\<open>datetime.fromisoformat\<close>: the year, month and day of
    the parsed value, \<open>None\<close> where it raises \<^verbatim>\<open>ValueError\<close>;
  \<^item> \<open>rt_float\<close> is \<^verbatim>\<open>float(s)\<close> on a string, \<open>None\<close> where it raises
    \<^verbatim>\<open>ValueError\<close>;
  \<^item> \<open>rt_repr\<close> is \<^verbatim>\<open>repr\<close> of a finite float.
\<close>

record runtime =
  rt_fromisoformat :: "string \<Rightarrow> (nat \<times> nat \<times> nat) option"
  rt_float :: "string \<Rightarrow> pyfloat option"
  rt_repr :: "rat \<Rightarrow> string"

subsection \<open>One runtime, to evaluate examples\<close>

definition leap_year :: "nat \<Rightarrow> bool" where
  "leap_year y = (y mod 4 = 0 \<and> (y mod 100 \<noteq> 0 \<or> y mod 400 = 0))"

definition days_in_month :: "nat \<Rightarrow> nat \<Rightarrow> nat" where
  "days_in_month y m =
     (if m = 2 then (if leap_year y then 29 else 28)
      else if m = 4 \<or> m = 6 \<or> m = 9 \<or> m = 11 then 30
      else 31)"

definition valid_date :: "nat \<Rightarrow> nat \<Rightarrow> nat \<Rightarrow> bool" where
  "valid_date y m d = (1 \<le> y \<and> y \<le> 9999 \<and> 1 \<le> m \<and> m \<le> 12 \<and> 1 \<le> d \<and> d \<le> days_in_month y m)"

fun two_digits :: "string \<Rightarrow> (nat \<times> string) option" where
  "two_digits (a # b # r) =
     (if is_digit a \<and> is_digit b then Some (10 * digit_val a + digit_val b, r) else None)"
| "two_digits s = None"

text \<open>
  \<^verbatim>\<open>HH[:MM[:SS[.fff[fff]]]]\<close>, the time and the offset of an ISO text: hours, minutes
  and seconds.
\<close>

definition parse_hh_mm_ss_ff :: "string \<Rightarrow> (nat \<times> nat \<times> nat) option" where
  "parse_hh_mm_ss_ff s =
     (case two_digits s of
        None \<Rightarrow> None
      | Some (h, r1) \<Rightarrow>
          if r1 = [] then Some (h, 0, 0)
          else if \<not> startswith r1 '':'' then None
          else
            (case two_digits (drop 1 r1) of
               None \<Rightarrow> None
             | Some (m, r2) \<Rightarrow>
                 if r2 = [] then Some (h, m, 0)
                 else if \<not> startswith r2 '':'' then None
                 else
                   (case two_digits (drop 1 r2) of
                      None \<Rightarrow> None
                    | Some (sec, r3) \<Rightarrow>
                        if r3 = [] then Some (h, m, sec)
                        else if startswith r3 ''.''
                                \<and> (length (drop 1 r3) = 3 \<or> length (drop 1 r3) = 6)
                                \<and> list_all is_digit (drop 1 r3)
                        then Some (h, m, sec)
                        else None)))"

definition parse_isoformat_time :: "string \<Rightarrow> bool" where
  "parse_isoformat_time t =
     (let body = takeWhile (\<lambda>c. c \<noteq> CHR ''-'' \<and> c \<noteq> CHR ''+'') t;
          tz = drop (Suc (length body)) t;
          has_tz = (length body < length t)
      in 2 \<le> length t
         \<and> (case parse_hh_mm_ss_ff body of
               None \<Rightarrow> False
             | Some (h, m, sec) \<Rightarrow> h < 24 \<and> m < 60 \<and> sec < 60)
         \<and> (if has_tz then
               (length tz = 5 \<or> length tz = 8 \<or> length tz = 15)
               \<and> (case parse_hh_mm_ss_ff (take 8 tz) of
                     None \<Rightarrow> False
                   | Some (h, m, sec) \<Rightarrow> h * 3600 + m * 60 + sec < 86400)
               \<and> (if length tz = 15
                    then startswith (drop 8 tz) ''.'' \<and> list_all is_digit (drop 9 tz)
                    else True)
             else True))"

text \<open>
  \<^verbatim>\<open>datetime.fromisoformat\<close> as documented up to Python 3.10:
  \<^verbatim>\<open>YYYY-MM-DD[*HH[:MM[:SS[.fff[fff]]]][+HH:MM[:SS[.ffffff]]]]\<close>.
\<close>

definition fromisoformat :: "string \<Rightarrow> (nat \<times> nat \<times> nat) option" where
  "fromisoformat s =
     (if length s < 10 \<or> \<not> list_all is_digit (take 4 s) \<or> s ! 4 \<noteq> CHR ''-''
         \<or> \<not> list_all is_digit (take 2 (drop 5 s)) \<or> s ! 7 \<noteq> CHR ''-''
         \<or> \<not> list_all is_digit (take 2 (drop 8 s))
      then None
      else
        (let y = nat_of_digits (take 4 s);
             m = nat_of_digits (take 2 (drop 5 s));
             d = nat_of_digits (take 2 (drop 8 s))
         in if \<not> valid_date y m d then None
            else if length s = 10 then Some (y, m, d)
            else if parse_isoformat_time (drop 11 s) then Some (y, m, d)
            else None))"

text \<open>\<^verbatim>\<open>float(s)\<close> on plain decimal texts: an optional sign and a JSON number.\<close>

definition float_of_str :: "string \<Rightarrow> pyfloat option" where
  "float_of_str s =
     (let neg = startswith s ''-'';
          t = (if startswith s ''-'' \<or> startswith s ''+'' then drop 1 s else s)
      in case scan_number t of
           Some (PInt i, []) \<Rightarrow> Some (Finite (of_int (if neg then - i else i)))
         | Some (PFloat (Finite r), []) \<Rightarrow> Some (Finite (if neg then - r else r))
         | _ \<Rightarrow> None)"

text \<open>\<^verbatim>\<open>repr\<close> of a float as a positional decimal of at most 17 fractional digits.\<close>

fun frac_digits :: "nat \<Rightarrow> rat \<Rightarrow> string" where
  "frac_digits 0 f = []"
| "frac_digits (Suc k) f =
     (if f = 0 then []
      else digit_char (nat \<lfloor>f * 10\<rfloor>) # frac_digits k (f * 10 - of_int \<lfloor>f * 10\<rfloor>))"

definition repr_float :: "rat \<Rightarrow> string" where
  "repr_float r =
     (let a = \<bar>r\<bar>; n = \<lfloor>a\<rfloor>; ds = frac_digits 17 (a - of_int n)
      in (if r < 0 then ''-'' else []) @ str_nat (nat n) @ ''.'' @ (if ds = [] then ''0'' else ds))"

definition cpython :: runtime where
  "cpython = \<lparr> rt_fromisoformat = fromisoformat, rt_float = float_of_str, rt_repr = repr_float \<rparr>"

section \<open>Exceptions as values\<close>

definition ebind :: "exc + 'a \<Rightarrow> ('a \<Rightarrow> exc + 'b) \<Rightarrow> exc + 'b" where
  "ebind m f = (case m of Inl e \<Rightarrow> Inl e | Inr x \<Rightarrow> f x)"

text \<open>What the programs write to the log: the level and the fixed part of the message.\<close>

datatype log_entry = LogWarning string | LogError string

section \<open>parse\_json\_field\<close>

text \<open>
  app.py:
  \<^verbatim>\<open>
  def parse_json_field(field_value):
      if not field_value: return []
      try:
          return json.loads(field_value)
      except (json.JSONDecodeError, TypeError):
          logger.warning(f"Failed to parse JSON field: {field_value}")
          return []
  \<close>
  The result is the returned value and what was logged; an exception that the handler
  does not name would leave the function.
\<close>

definition app_parse_json_field :: "pyval \<Rightarrow> exc + (pyval \<times> log_entry list)" where
  "app_parse_json_field field_value =
     (if \<not> truthy field_value then Inr (PList [], [])
      else
        (case json_loads field_value of
           Inr v \<Rightarrow> Inr (v, [])
         | Inl e \<Rightarrow>
             if e = JSONDecodeError \<or> e = TypeError
             then Inr (PList [], [LogWarning ''Failed to parse JSON field''])
             else Inl e))"

text \<open>
  builder.py differs in the handler, which slices the value for the message:
  \<^verbatim>\<open>
      except (json.JSONDecodeError, TypeError) as e:
          logger.warning(f"Failed to parse JSON field: {field_value[:50]}...")
          return []
  \<close>
  \<^verbatim>\<open>field_value[:50]\<close> is defined on strings and lists; on a number, a boolean or a
  dictionary it raises inside the handler.
\<close>

definition slice50 :: "pyval \<Rightarrow> exc + pyval" where
  "slice50 v =
     (case v of
        PStr s \<Rightarrow> Inr (PStr (take 50 s))
      | PList xs \<Rightarrow> Inr (PList (take 50 xs))
      | _ \<Rightarrow> Inl TypeError)"

definition builder_parse_json_field :: "pyval \<Rightarrow> exc + (pyval \<times> log_entry list)" where
  "builder_parse_json_field field_value =
     (if \<not> truthy field_value then Inr (PList [], [])
      else
        (case json_loads field_value of
           Inr v \<Rightarrow> Inr (v, [])
         | Inl e \<Rightarrow>
             if e = JSONDecodeError \<or> e = TypeError
             then ebind (slice50 field_value)
                    (\<lambda>shown. Inr (PList [], [LogWarning ''Failed to parse JSON field'']))
             else Inl e))"

section \<open>Date normalization\<close>

text \<open>
  The same lines in app.py and builder.py:
  \<^verbatim>\<open>
  published_date = row['published_date']
  if published_date:
      try:
          dt = datetime.fromisoformat(published_date.replace('Z', '+00:00'))
          published_date = dt.strftime('%Y-%m-%d')
      except (ValueError, AttributeError):
          match = re.search(r'(\d{4}-\d{2}-\d{2})', published_date)
          published_date = match.group(1) if match else published_date
  \<close>
\<close>

definition pad :: "nat \<Rightarrow> nat \<Rightarrow> string" where
  "pad width n = replicate (width - length (str_nat n)) CHR ''0'' @ str_nat n"

text \<open>\<^verbatim>\<open>dt.strftime('%Y-%m-%d')\<close>, as documented: a four-digit year.\<close>

definition strftime_ymd :: "nat \<times> nat \<times> nat \<Rightarrow> string" where
  "strftime_ymd ymd =
     (case ymd of (y, m, d) \<Rightarrow> pad 4 y @ ''-'' @ pad 2 m @ ''-'' @ pad 2 d)"

text \<open>\<^verbatim>\<open>\d{4}-\d{2}-\d{2}\<close> at the head of the text (digits are the ASCII ones).\<close>

definition match_date :: "string \<Rightarrow> bool" where
  "match_date s =
     (10 \<le> length s
      \<and> list_all is_digit (take 4 s) \<and> s ! 4 = CHR ''-''
      \<and> list_all is_digit (take 2 (drop 5 s)) \<and> s ! 7 = CHR ''-''
      \<and> list_all is_digit (take 2 (drop 8 s)))"

text \<open>\<^verbatim>\<open>re.search\<close>: the leftmost match, if any.\<close>

fun search_date :: "string \<Rightarrow> string option" where
  "search_date [] = None"
| "search_date (c # cs) =
     (if match_date (c # cs) then Some (take 10 (c # cs)) else search_date cs)"

text \<open>
  The body of \<^verbatim>\<open>try\<close>: a value without \<^verbatim>\<open>replace\<close> raises \<^verbatim>\<open>AttributeError\<close>, a
  text that is not an ISO date raises \<^verbatim>\<open>ValueError\<close>.
\<close>

definition iso_date :: "runtime \<Rightarrow> pyval \<Rightarrow> exc + pyval" where
  "iso_date rt published_date =
     (case published_date of
        PStr s \<Rightarrow>
          (case rt_fromisoformat rt (replace ''Z'' ''+00:00'' s) of
             Some dt \<Rightarrow> Inr (PStr (strftime_ymd dt))
           | None \<Rightarrow> Inl ValueError)
      | _ \<Rightarrow> Inl AttributeError)"

text \<open>The handler: \<^verbatim>\<open>re.search\<close> on a value that is not text raises \<^verbatim>\<open>TypeError\<close>.\<close>

definition regex_date :: "pyval \<Rightarrow> exc + pyval" where
  "regex_date published_date =
     (case published_date of
        PStr s \<Rightarrow>
          (case search_date s of
             Some m \<Rightarrow> Inr (PStr m)
           | None \<Rightarrow> Inr published_date)
      | _ \<Rightarrow> Inl TypeError)"

definition normalize_date :: "runtime \<Rightarrow> pyval \<Rightarrow> exc + pyval" where
  "normalize_date rt published_date =
     (if truthy published_date then
        (case iso_date rt published_date of
           Inr d \<Rightarrow> Inr d
         | Inl e \<Rightarrow>
             if e = ValueError \<or> e = AttributeError then regex_date published_date
             else Inl e)
      else Inr published_date)"

section \<open>The paper record\<close>

text \<open>
  A row of the \<open>papers\<close> table, as \<^verbatim>\<open>sqlite3.Row\<close> gives it: a value for each column
  the query selects. Both formatters emit a dictionary with the same keys, in the same
  order.
\<close>

type_synonym row = "string \<Rightarrow> pyval"

definition schema_keys :: "string list" where
  "schema_keys =
     [''id'', ''title'', ''authors'',
      ''categories'', ''abstract'', ''published_date'',
      ''arxiv_url'', ''pdf_url'', ''scraper_status'',
      ''intro_status'', ''embedding_status'', ''rlhf_score'',
      ''weak_supervision_score'', ''diffusion_reasoning_score'', ''distributed_training_score'',
      ''datasets_score'', ''llm_validation_status'', ''rlhf_relevance'',
      ''weak_supervision_relevance'', ''diffusion_reasoning_relevance'', ''distributed_training_relevance'',
      ''datasets_relevance'', ''rlhf_justification'', ''weak_supervision_justification'',
      ''diffusion_reasoning_justification'', ''distributed_training_justification'', ''datasets_justification'',
      ''llm_score_status'', ''summary'', ''novelty_score'',
      ''novelty_justification'', ''impact_score'', ''impact_justification'',
      ''recommendation_score'', ''recommendation_justification'', ''h_index_status'',
      ''semantic_scholar_url'', ''total_authors'', ''authors_found'',
      ''highest_h_index'', ''average_h_index'', ''notable_authors_count'',
      ''author_h_indexes'']"

definition text_keys :: "string list" where
  "text_keys =
     [''title'', ''abstract'', ''summary'', ''rlhf_justification'',
      ''weak_supervision_justification'', ''diffusion_reasoning_justification'',
      ''distributed_training_justification'', ''datasets_justification'',
      ''novelty_justification'', ''impact_justification'', ''recommendation_justification'']"

definition float_default_keys :: "string list" where
  "float_default_keys =
     [''rlhf_score'', ''weak_supervision_score'',
      ''diffusion_reasoning_score'', ''distributed_training_score'',
      ''datasets_score'', ''average_h_index'']"

definition int_default_keys :: "string list" where
  "int_default_keys =
     [''total_authors'', ''authors_found'', ''highest_h_index'',
      ''notable_authors_count'']"

definition list_keys :: "string list" where
  "list_keys = [''authors'', ''categories'', ''author_h_indexes'']"

text \<open>\<^verbatim>\<open>d[key]\<close> on an emitted record (\<^verbatim>\<open>None\<close> also where the value is not a dictionary).\<close>

definition field :: "pyval \<Rightarrow> string \<Rightarrow> pyval option" where
  "field d k = (case d of PDict kvs \<Rightarrow> map_of kvs k | _ \<Rightarrow> None)"

definition keys_of :: "pyval \<Rightarrow> string list" where
  "keys_of d = (case d of PDict kvs \<Rightarrow> map fst kvs | _ \<Rightarrow> [])"

section \<open>app.py: format\_paper\_data\<close>

text \<open>
  The text fields are taken from the row as they are ("Flask's jsonify will handle
  proper JSON escaping"), and so is every numeric field. The whole body stands in
  \<^verbatim>\<open>try: ... except Exception as e: logger.error(...); return None\<close>.
\<close>

definition app_format_body :: "runtime \<Rightarrow> row \<Rightarrow> exc + pyval" where
  "app_format_body rt row =
     ebind (app_parse_json_field (row ''authors'')) (\<lambda>(authors, log1).
     ebind (app_parse_json_field (row ''categories'')) (\<lambda>(categories, log2).
     ebind (app_parse_json_field (row ''author_h_indexes'')) (\<lambda>(author_h_indexes, log3).
     let title = row ''title'';
         abstract = row ''abstract'';
         summary = row ''summary''
     in ebind (normalize_date rt (row ''published_date'')) (\<lambda>published_date.
        Inr (PDict
          [(''id'', row ''id''),
           (''title'', title),
           (''authors'', authors),
           (''categories'', categories),
           (''abstract'', abstract),
           (''published_date'', published_date),
           (''arxiv_url'', row ''arxiv_url''),
           (''pdf_url'', row ''pdf_url''),
           (''scraper_status'', row ''scraper_status''),
           (''intro_status'', row ''intro_status''),
           (''embedding_status'', row ''embedding_status''),
           (''rlhf_score'', row ''rlhf_score''),
           (''weak_supervision_score'', row ''weak_supervision_score''),
           (''diffusion_reasoning_score'', row ''diffusion_reasoning_score''),
           (''distributed_training_score'', row ''distributed_training_score''),
           (''datasets_score'', row ''datasets_score''),
           (''llm_validation_status'', row ''llm_validation_status''),
           (''rlhf_relevance'', row ''rlhf_relevance''),
           (''weak_supervision_relevance'', row ''weak_supervision_relevance''),
           (''diffusion_reasoning_relevance'', row ''diffusion_reasoning_relevance''),
           (''distributed_training_relevance'', row ''distributed_training_relevance''),
           (''datasets_relevance'', row ''datasets_relevance''),
           (''rlhf_justification'', row ''rlhf_justification''),
           (''weak_supervision_justification'', row ''weak_supervision_justification''),
           (''diffusion_reasoning_justification'', row ''diffusion_reasoning_justification''),
           (''distributed_training_justification'', row ''distributed_training_justification''),
           (''datasets_justification'', row ''datasets_justification''),
           (''llm_score_status'', row ''llm_score_status''),
           (''summary'', summary),
           (''novelty_score'', row ''novelty_score''),
           (''novelty_justification'', row ''novelty_justification''),
           (''impact_score'', row ''impact_score''),
           (''impact_justification'', row ''impact_justification''),
           (''recommendation_score'', row ''recommendation_score''),
           (''recommendation_justification'', row ''recommendation_justification''),
           (''h_index_status'', row ''h_index_status''),
           (''semantic_scholar_url'', row ''semantic_scholar_url''),
           (''total_authors'', row ''total_authors''),
           (''authors_found'', row ''authors_found''),
           (''highest_h_index'', row ''highest_h_index''),
           (''average_h_index'', row ''average_h_index''),
           (''notable_authors_count'', row ''notable_authors_count''),
           (''author_h_indexes'', author_h_indexes)])))))"

definition app_format_paper_data :: "runtime \<Rightarrow> row \<Rightarrow> pyval" where
  "app_format_paper_data rt row =
     (case app_format_body rt row of Inr paper_data \<Rightarrow> paper_data | Inl e \<Rightarrow> PNone)"

section \<open>builder.py: format\_paper\_data\<close>

text \<open>\<^verbatim>\<open>float(x)\<close>; a text goes through the runtime's parser.\<close>

definition py_float :: "runtime \<Rightarrow> pyval \<Rightarrow> exc + pyval" where
  "py_float rt v =
     (case v of
        PInt i \<Rightarrow> Inr (PFloat (Finite (of_int i)))
      | PFloat f \<Rightarrow> Inr (PFloat f)
      | PBool b \<Rightarrow> Inr (PFloat (Finite (if b then 1 else 0)))
      | PStr s \<Rightarrow> (case rt_float rt s of Some f \<Rightarrow> Inr (PFloat f) | None \<Rightarrow> Inl ValueError)
      | _ \<Rightarrow> Inl TypeError)"

text \<open>\<^verbatim>\<open>float(row[k]) if row[k] is not None else 0.0\<close>\<close>

definition float_or_default :: "runtime \<Rightarrow> pyval \<Rightarrow> exc + pyval" where
  "float_or_default rt v = (if v \<noteq> PNone then py_float rt v else Inr (PFloat (Finite 0)))"

text \<open>\<^verbatim>\<open>row[k] if row[k] is not None else 0\<close>\<close>

definition int_or_default :: "pyval \<Rightarrow> pyval" where
  "int_or_default v = (if v \<noteq> PNone then v else PInt 0)"

text \<open>
  Iteration, as in \<^verbatim>\<open>[safe_json_escape(author) for author in authors]\<close>: a list gives
  its items, a text its characters (a character is a lead byte with its continuation
  bytes), a dictionary its keys; anything else raises \<^verbatim>\<open>TypeError\<close>.
\<close>

definition is_cont :: "char \<Rightarrow> bool" where
  "is_cont c = ((of_char c :: nat) div 64 = 2)"

function code_points :: "string \<Rightarrow> string list" where
  "code_points [] = []"
| "code_points (c # cs) = (c # takeWhile is_cont cs) # code_points (dropWhile is_cont cs)"
  by pat_completeness auto
termination
  by (relation "measure length") (auto simp: less_Suc_eq_le length_dropWhile_le)

definition py_iter :: "pyval \<Rightarrow> exc + pyval list" where
  "py_iter v =
     (case v of
        PList xs \<Rightarrow> Inr xs
      | PStr s \<Rightarrow> Inr (map PStr (code_points s))
      | PDict kvs \<Rightarrow> Inr (map (\<lambda>kv. PStr (fst kv)) kvs)
      | _ \<Rightarrow> Inl TypeError)"

text \<open>\<^verbatim>\<open>d.get(key, default)\<close>\<close>

definition dict_get :: "(string \<times> pyval) list \<Rightarrow> string \<Rightarrow> pyval \<Rightarrow> pyval" where
  "dict_get kvs k dflt = (case map_of kvs k of Some v \<Rightarrow> v | None \<Rightarrow> dflt)"

text \<open>
  \<^verbatim>\<open>
  for author_info in author_h_indexes:
      if isinstance(author_info, dict):
          escaped_author_h_indexes.append({
              'name': safe_json_escape(author_info.get('name', '')),
              'h_index': author_info.get('h_index', 0),
              'profile_url': safe_json_escape(author_info.get('profile_url', ''))})
  \<close>
\<close>

fun escape_h_indexes :: "pyval list \<Rightarrow> pyval list" where
  "escape_h_indexes [] = []"
| "escape_h_indexes (author_info # rest) =
     (case author_info of
        PDict kvs \<Rightarrow>
          PDict [(''name'', safe_json_escape (dict_get kvs ''name'' (PStr []))),
                 (''h_index'', dict_get kvs ''h_index'' (PInt 0)),
                 (''profile_url'', safe_json_escape (dict_get kvs ''profile_url'' (PStr [])))]
            # escape_h_indexes rest
      | _ \<Rightarrow> escape_h_indexes rest)"

definition builder_format_body :: "runtime \<Rightarrow> row \<Rightarrow> exc + pyval" where
  "builder_format_body rt row =
     ebind (builder_parse_json_field (row ''authors'')) (\<lambda>(authors, log1).
     ebind (builder_parse_json_field (row ''categories'')) (\<lambda>(categories, log2).
     ebind (builder_parse_json_field (row ''author_h_indexes'')) (\<lambda>(author_h_indexes, log3).
     let title = safe_json_escape (row ''title'');
         abstract = safe_json_escape (row ''abstract'');
         summary = safe_json_escape (row ''summary'');
         recommendation_justification = safe_json_escape (row ''recommendation_justification'');
         novelty_justification = safe_json_escape (row ''novelty_justification'');
         impact_justification = safe_json_escape (row ''impact_justification'');
         rlhf_justification = safe_json_escape (row ''rlhf_justification'');
         weak_supervision_justification = safe_json_escape (row ''weak_supervision_justification'');
         diffusion_reasoning_justification =
           safe_json_escape (row ''diffusion_reasoning_justification'');
         distributed_training_justification =
           safe_json_escape (row ''distributed_training_justification'');
         datasets_justification = safe_json_escape (row ''datasets_justification'')
     in
     ebind (py_iter authors) (\<lambda>author_list.
     ebind (py_iter categories) (\<lambda>category_list.
     ebind (py_iter author_h_indexes) (\<lambda>author_info_list.
     let escaped_authors = PList (map safe_json_escape author_list);
         escaped_categories = PList (map safe_json_escape category_list);
         escaped_author_h_indexes = PList (escape_h_indexes author_info_list)
     in
     ebind (normalize_date rt (row ''published_date'')) (\<lambda>published_date.
     ebind (float_or_default rt (row ''rlhf_score'')) (\<lambda>rlhf_score.
     ebind (float_or_default rt (row ''weak_supervision_score'')) (\<lambda>weak_supervision_score.
     ebind (float_or_default rt (row ''diffusion_reasoning_score'')) (\<lambda>diffusion_reasoning_score.
     ebind (float_or_default rt (row ''distributed_training_score'')) (\<lambda>distributed_training_score.
     ebind (float_or_default rt (row ''datasets_score'')) (\<lambda>datasets_score.
     ebind (float_or_default rt (row ''average_h_index'')) (\<lambda>average_h_index.
     Inr (PDict
          [(''id'', row ''id''),
           (''title'', title),
           (''authors'', escaped_authors),
           (''categories'', escaped_categories),
           (''abstract'', abstract),
           (''published_date'', published_date),
           (''arxiv_url'', row ''arxiv_url''),
           (''pdf_url'', row ''pdf_url''),
           (''scraper_status'', row ''scraper_status''),
           (''intro_status'', row ''intro_status''),
           (''embedding_status'', row ''embedding_status''),
           (''rlhf_score'', rlhf_score),
           (''weak_supervision_score'', weak_supervision_score),
           (''diffusion_reasoning_score'', diffusion_reasoning_score),
           (''distributed_training_score'', distributed_training_score),
           (''datasets_score'', datasets_score),
           (''llm_validation_status'', row ''llm_validation_status''),
           (''rlhf_relevance'', row ''rlhf_relevance''),
           (''weak_supervision_relevance'', row ''weak_supervision_relevance''),
           (''diffusion_reasoning_relevance'', row ''diffusion_reasoning_relevance''),
           (''distributed_training_relevance'', row ''distributed_training_relevance''),
           (''datasets_relevance'', row ''datasets_relevance''),
           (''rlhf_justification'', rlhf_justification),
           (''weak_supervision_justification'', weak_supervision_justification),
           (''diffusion_reasoning_justification'', diffusion_reasoning_justification),
           (''distributed_training_justification'', distributed_training_justification),
           (''datasets_justification'', datasets_justification),
           (''llm_score_status'', row ''llm_score_status''),
           (''summary'', summary),
           (''novelty_score'', row ''novelty_score''),
           (''novelty_justification'', novelty_justification),
           (''impact_score'', row ''impact_score''),
           (''impact_justification'', impact_justification),
           (''recommendation_score'', row ''recommendation_score''),
           (''recommendation_justification'', recommendation_justification),
           (''h_index_status'', row ''h_index_status''),
           (''semantic_scholar_url'', row ''semantic_scholar_url''),
           (''total_authors'', int_or_default (row ''total_authors'')),
           (''authors_found'', int_or_default (row ''authors_found'')),
           (''highest_h_index'', int_or_default (row ''highest_h_index'')),
           (''average_h_index'', average_h_index),
           (''notable_authors_count'', int_or_default (row ''notable_authors_count'')),
           (''author_h_indexes'', escaped_author_h_indexes)]))))))))))))))"

text \<open>
  The body stands in \<^verbatim>\<open>try: ... except Exception as e:\<close>, whose handler logs
  \<^verbatim>\<open>row.get('id', 'unknown')\<close> and then raises \<^verbatim>\<open>Exception\<close>. A \<^verbatim>\<open>sqlite3.Row\<close> has no
  method \<^verbatim>\<open>get\<close>, so what leaves the function is the \<^verbatim>\<open>AttributeError\<close> of the handler.
\<close>

definition builder_format_paper_data :: "runtime \<Rightarrow> row \<Rightarrow> exc + pyval" where
  "builder_format_paper_data rt row =
     (case builder_format_body rt row of
        Inr paper_data \<Rightarrow> Inr paper_data
      | Inl e \<Rightarrow> Inl AttributeError)"

definition example_row :: row where
  "example_row k =
     (if k = ''id'' then PInt 7
      else if k = ''title'' then PStr (''<b>'' @ [dollar] @ ''x'' @ [dollar] @ ''</b>'')
      else if k = ''authors'' then PStr ([CHR ''['', dquote] @ ''Ada'' @ [dquote, CHR '']''])
      else if k = ''published_date'' then PStr ''2025-07-15T00:00:00Z''
      else if k = ''impact_score'' then PInt 3
      else if k = ''datasets_score'' then PFloat (Finite (1 / 2))
      else PNone)"

section \<open>The database, as the programs see it\<close>

text \<open>
  Both programs read one table through two queries: the rows whose
  \<^verbatim>\<open>DATE(published_date)\<close> is a given date, ordered by \<open>id\<close> (the count query counts
  the same rows), and the distinct dates, latest first. A query that raises
  \<^verbatim>\<open>sqlite3.Error\<close> is \<open>None\<close>.
\<close>

record database =
  db_papers :: "string \<Rightarrow> row list option"
  db_dates :: "string list option"

section \<open>app.py: get\_papers\<close>

text \<open>
  \<^verbatim>\<open>datetime.strptime(date, '%Y-%m-%d')\<close>: four digits, a month written \<^verbatim>\<open>1[0-2]\<close>,
  \<^verbatim>\<open>0[1-9]\<close> or \<^verbatim>\<open>[1-9]\<close>, a day written \<^verbatim>\<open>3[01]\<close>, \<^verbatim>\<open>[12]\d\<close>, \<^verbatim>\<open>0[1-9]\<close>,
  \<^verbatim>\<open>[1-9]\<close> or a space and \<^verbatim>\<open>[1-9]\<close>, separated by hyphens, nothing before or after,
  and a date that exists.
\<close>

definition month_field :: "string \<Rightarrow> nat option" where
  "month_field s =
     (if list_all is_digit s \<and> (length s = 1 \<or> length s = 2)
         \<and> 1 \<le> nat_of_digits s \<and> nat_of_digits s \<le> 12
      then Some (nat_of_digits s) else None)"

definition day_field :: "string \<Rightarrow> nat option" where
  "day_field s =
     (let t = (if length s = 2 \<and> startswith s '' '' then drop 1 s else s)
      in if list_all is_digit t \<and> (length s = 1 \<or> length s = 2)
            \<and> 1 \<le> nat_of_digits t \<and> nat_of_digits t \<le> 31
         then Some (nat_of_digits t) else None)"

definition strptime_ymd :: "string \<Rightarrow> (nat \<times> nat \<times> nat) option" where
  "strptime_ymd s =
     (let ys = take 4 s;
          ms = takeWhile (\<lambda>c. c \<noteq> CHR ''-'') (drop 5 s);
          ds = drop (6 + length ms) s
      in if length ys = 4 \<and> list_all is_digit ys \<and> startswith (drop 4 s) ''-''
            \<and> startswith (drop (5 + length ms) s) ''-''
         then
           (case (month_field ms, day_field ds) of
              (Some m, Some d) \<Rightarrow>
                if valid_date (nat_of_digits ys) m d then Some (nat_of_digits ys, m, d) else None
            | _ \<Rightarrow> None)
         else None)"

text \<open>\<^verbatim>\<open>jsonify({"error": message}), status\<close>\<close>

definition error_response :: "string \<Rightarrow> nat \<Rightarrow> pyval \<times> nat" where
  "error_response message status = (PDict [(''error'', PStr message)], status)"

text \<open>
  \<^verbatim>\<open>
  if not date: return jsonify({"error": ...}), 400
  try: datetime.strptime(date, '%Y-%m-%d')
  except ValueError: return jsonify({"error": ...}), 400
  if page < 1: return ..., 400
  if limit < 1 or limit > 100: return ..., 400
  conn = get_db_connection()
  if not conn: return ..., 500
  total_papers = cursor.fetchone()['total']
  if total_papers == 0:
      return jsonify({"papers": [], "page": page, "limit": limit, "total_papers": 0,
                      "total_pages": 0, "has_next": False, "has_prev": False})
  total_pages = (total_papers + limit - 1) // limit
  offset = (page - 1) * limit
  if page > total_pages:
      return jsonify({"error": f"Page {page} is out of bounds. ..."}), 400
  ... LIMIT ? OFFSET ?
  for row in rows:
      paper_data = format_paper_data(row)
      if paper_data: papers.append(paper_data)
  return jsonify({"papers": papers, "page": page, "limit": limit,
                  "total_papers": total_papers, "total_pages": total_pages,
                  "has_next": page < total_pages, "has_prev": page > 1})
  \<close>
  The request gives the date (absent or a text) and, after \<^verbatim>\<open>type=int\<close>, two integers;
  the connection is \<open>None\<close> when it cannot be opened. The result is the JSON body and
  the HTTP status.
\<close>

definition get_papers ::
  "runtime \<Rightarrow> database option \<Rightarrow> string option \<Rightarrow> int \<Rightarrow> int \<Rightarrow> pyval \<times> nat" where
  "get_papers rt conn date page limit =
     (case date of
        None \<Rightarrow> error_response ''Date parameter is required (YYYY-MM-DD format)'' 400
      | Some d \<Rightarrow>
          if d = [] then error_response ''Date parameter is required (YYYY-MM-DD format)'' 400
          else if strptime_ymd d = None
          then error_response ''Invalid date format. Use YYYY-MM-DD'' 400
          else if page < 1 then error_response ''Page must be >= 1'' 400
          else if limit < 1 \<or> limit > 100
          then error_response ''Limit must be between 1 and 100'' 400
          else
            (case conn of
               None \<Rightarrow> error_response ''Database connection failed'' 500
             | Some db \<Rightarrow>
                 (case db_papers db d of
                    None \<Rightarrow> error_response ''Database query failed'' 500
                  | Some matching \<Rightarrow>
                      (let total_papers = int (length matching)
                       in if total_papers = 0 then
                            (PDict [(''papers'', PList []), (''page'', PInt page),
                                    (''limit'', PInt limit), (''total_papers'', PInt 0),
                                    (''total_pages'', PInt 0), (''has_next'', PBool False),
                                    (''has_prev'', PBool False)], 200)
                          else
                            (let total_pages = (total_papers + limit - 1) div limit;
                                 offset = (page - 1) * limit
                             in if page > total_pages then
                                  error_response
                                    (''Page '' @ str_int page @ '' is out of bounds. Total pages: ''
                                       @ str_int total_pages) 400
                                else
                                  (let rows = take (nat limit) (drop (nat offset) matching);
                                       papers = filter truthy (map (app_format_paper_data rt) rows)
                                   in (PDict [(''papers'', PList papers), (''page'', PInt page),
                                              (''limit'', PInt limit),
                                              (''total_papers'', PInt total_papers),
                                              (''total_pages'', PInt total_pages),
                                              (''has_next'', PBool (page < total_pages)),
                                              (''has_prev'', PBool (page > 1))], 200)))))))"

section \<open>builder.py: the static page\<close>

text \<open>
  \<^verbatim>\<open>
  json_str = json.dumps(data, ensure_ascii=False, indent=2)
  json_str = json_str.replace('</script>', '<\\/script>')
  json_str = json_str.replace('<!--', '<\\!--')
  json_str = json_str.replace('-->', '--\\>')
  \<close>
  No value of the model makes \<^verbatim>\<open>json.dumps\<close> raise, so the handler of
  \<^verbatim>\<open>safe_json_dumps\<close> has no branch here.
\<close>

definition safe_json_dumps :: "runtime \<Rightarrow> pyval \<Rightarrow> string" where
  "safe_json_dumps rt data =
     (let json_str = dumps (rt_repr rt) 0 data;
          json_str = replace ''</script>'' (''<'' @ [bslash] @ ''/script>'') json_str;
          json_str = replace ''<!--'' (''<'' @ [bslash] @ ''!--'') json_str;
          json_str = replace ''-->'' (''--'' @ [bslash] @ ''>'') json_str
      in json_str)"

definition month_name :: "nat \<Rightarrow> string" where
  "month_name m =
     [''January'', ''February'', ''March'', ''April'', ''May'', ''June'', ''July'',
      ''August'', ''September'', ''October'', ''November'', ''December''] ! ((m - 1) mod 12)"

text \<open>
  \<^verbatim>\<open>
  try:
      date_obj = datetime.strptime(date_str, '%Y-%m-%d')
      return date_obj.strftime('%d %B %Y')
  except ValueError:
      logger.warning(...); return date_str
  \<close>
\<close>

definition format_date_for_title :: "string \<Rightarrow> string" where
  "format_date_for_title date_str =
     (case strptime_ymd date_str of
        Some (y, m, d) \<Rightarrow> pad 2 d @ '' '' @ month_name m @ '' '' @ pad 4 y
      | None \<Rightarrow> date_str)"

text \<open>
  \<^verbatim>\<open>
  formatted_date = format_date_for_title(date)
  page_title = f"Papers Published on {formatted_date}"
  json_data = safe_json_dumps(paper_data)
  html_content = template_content
  html_content = html_content.replace('PLACEHOLDER_TITLE', formatted_date)
  html_content = html_content.replace('PLACEHOLDER_MOBILE_TITLE', page_title)
  html_content = html_content.replace('PLACEHOLDER_DESKTOP_TITLE', page_title)
  html_content = html_content.replace('<!--DATA_HERE-->', json_data)
  return html_content
  \<close>
  The body stands in \<^verbatim>\<open>try: ... except Exception: raise Exception(...)\<close>; none of its
  steps raises, and none looks whether a placeholder was found.
\<close>

definition generate_static_page :: "runtime \<Rightarrow> string \<Rightarrow> pyval \<Rightarrow> string \<Rightarrow> exc + string" where
  "generate_static_page rt date paper_data template_content =
     (let formatted_date = format_date_for_title date;
          page_title = ''Papers Published on '' @ formatted_date;
          json_data = safe_json_dumps rt paper_data;
          html_content = template_content;
          html_content = replace ''PLACEHOLDER_TITLE'' formatted_date html_content;
          html_content = replace ''PLACEHOLDER_MOBILE_TITLE'' page_title html_content;
          html_content = replace ''PLACEHOLDER_DESKTOP_TITLE'' page_title html_content;
          html_content = replace ''<!--DATA_HERE-->'' json_data html_content
      in Inr html_content)"

text \<open>The loop of \<^verbatim>\<open>get_papers_for_date\<close>: the first row that fails ends it.\<close>

fun format_rows :: "runtime \<Rightarrow> row list \<Rightarrow> exc + pyval list" where
  "format_rows rt [] = Inr []"
| "format_rows rt (r # rs) =
     ebind (builder_format_paper_data rt r) (\<lambda>paper_data.
     ebind (format_rows rt rs) (\<lambda>papers. Inr (paper_data # papers)))"

text \<open>
  \<^verbatim>\<open>get_papers_for_date(date, max_papers)\<close>. A missing database file raises
  \<^verbatim>\<open>FileNotFoundError\<close>; \<^verbatim>\<open>sqlite3.Error\<close> is caught and raised again as
  \<^verbatim>\<open>Exception\<close>; \<^verbatim>\<open>LIMIT\<close> is added when \<^verbatim>\<open>max_papers\<close> is neither absent nor 0, and a
  negative \<^verbatim>\<open>LIMIT\<close> is no limit.
\<close>

definition get_papers_for_date ::
  "runtime \<Rightarrow> database option \<Rightarrow> string \<Rightarrow> int option \<Rightarrow> exc + pyval" where
  "get_papers_for_date rt conn date max_papers =
     (case conn of
        None \<Rightarrow> Inl FileNotFoundError
      | Some db \<Rightarrow>
          (case db_papers db date of
             None \<Rightarrow> Inl Exception
           | Some matching \<Rightarrow>
               if length matching = 0 then
                 Inr (PDict [(''papers'', PList []), (''total_papers'', PInt 0),
                             (''date'', PStr date)])
               else
                 (let rows = (case max_papers of
                                None \<Rightarrow> matching
                              | Some n \<Rightarrow> if 0 < n then take (nat n) matching else matching)
                  in ebind (format_rows rt rows) (\<lambda>papers.
                       Inr (PDict [(''papers'', PList papers),
                                   (''total_papers'', PInt (int (length papers))),
                                   (''date'', PStr date)])))))"

text \<open>
  \<^verbatim>\<open>build_static_site\<close>: the files written so far, and the exception that ended the
  build, if any. A date with no paper is skipped; for every other date the generated
  page is written to \<^verbatim>\<open>output/<date>.html\<close>; any exception inside the loop is raised
  again as \<^verbatim>\<open>Exception\<close>.
\<close>

fun build_pages ::
  "runtime \<Rightarrow> database option \<Rightarrow> string \<Rightarrow> int option \<Rightarrow> string list
    \<Rightarrow> (string \<times> string) list \<Rightarrow> exc option \<times> (string \<times> string) list" where
  "build_pages rt conn template_content max_papers [] files = (None, files)"
| "build_pages rt conn template_content max_papers (date # dates) files =
     (case get_papers_for_date rt conn date max_papers of
        Inl e \<Rightarrow> (Some Exception, files)
      | Inr paper_data \<Rightarrow>
          if field paper_data ''total_papers'' = Some (PInt 0)
          then build_pages rt conn template_content max_papers dates files
          else
            (case generate_static_page rt date paper_data template_content of
               Inl e \<Rightarrow> (Some Exception, files)
             | Inr html_content \<Rightarrow>
                 build_pages rt conn template_content max_papers dates
                   (AList.update (''output/'' @ date @ ''.html'') html_content files)))"

definition get_all_dates :: "database option \<Rightarrow> exc + string list" where
  "get_all_dates conn =
     (case conn of
        None \<Rightarrow> Inl FileNotFoundError
      | Some db \<Rightarrow> (case db_dates db of None \<Rightarrow> Inl Exception | Some ds \<Rightarrow> Inr ds))"

definition build_static_site ::
  "runtime \<Rightarrow> database option \<Rightarrow> string option \<Rightarrow> string option \<Rightarrow> int option
    \<Rightarrow> exc option \<times> (string \<times> string) list" where
  "build_static_site rt conn template target_date max_papers =
     (case template of
        None \<Rightarrow> (Some FileNotFoundError, [])
      | Some template_content \<Rightarrow>
          (case (case target_date of
                   None \<Rightarrow> get_all_dates conn
                 | Some d \<Rightarrow> if d \<noteq> [] then Inr [d] else get_all_dates conn) of
             Inl e \<Rightarrow> (Some e, [])
           | Inr dates \<Rightarrow> build_pages rt conn template_content max_papers dates []))"

definition example_db :: database where
  "example_db =
     \<lparr> db_papers = (\<lambda>d. if d = ''2025-07-15'' then Some [example_row] else Some []),
       db_dates = Some [''2025-07-15''] \<rparr>"

section \<open>What the formatters return\<close>

lemma ebind_Inr: "ebind m f = Inr y \<longleftrightarrow> (\<exists>x. m = Inr x \<and> f x = Inr y)"
  by (cases m) (simp_all add: ebind_def)

lemma ebind_InrE:
  assumes "ebind m f = Inr y"
  obtains x where "m = Inr x" "f x = Inr y"
  using assms by (auto simp: ebind_Inr)

lemma json_loads_errors: "json_loads x = Inl e \<Longrightarrow> e = JSONDecodeError \<or> e = TypeError"
  by (cases x) (auto simp: json_loads_def split: jres.splits)

lemma app_parse_json_field_total: "\<exists>v l. app_parse_json_field x = Inr (v, l)"
proof (cases "json_loads x")
  case (Inl e)
  with json_loads_errors[OF Inl] show ?thesis
    by (auto simp: app_parse_json_field_def)
next
  case (Inr v)
  then show ?thesis by (simp add: app_parse_json_field_def)
qed

lemma safe_json_escape_id: "safe_json_escape v = v"
  by (simp add: safe_json_escape_def)

lemma map_safe_json_escape: "map safe_json_escape vs = vs"
  by (induction vs) (simp_all add: safe_json_escape_id)

lemma app_format_body_Inr:
  assumes "app_format_body rt row = Inr paper"
  shows "\<exists>authors log1 categories log2 author_h_indexes log3 published_date.
    app_parse_json_field (row ''authors'') = Inr (authors, log1)
    \<and> app_parse_json_field (row ''categories'') = Inr (categories, log2)
    \<and> app_parse_json_field (row ''author_h_indexes'') = Inr (author_h_indexes, log3)
    \<and> normalize_date rt (row ''published_date'') = Inr published_date
    \<and> paper = PDict
       [(''id'', row ''id''),
        (''title'', row ''title''),
        (''authors'', authors),
        (''categories'', categories),
        (''abstract'', row ''abstract''),
        (''published_date'', published_date),
        (''arxiv_url'', row ''arxiv_url''),
        (''pdf_url'', row ''pdf_url''),
        (''scraper_status'', row ''scraper_status''),
        (''intro_status'', row ''intro_status''),
        (''embedding_status'', row ''embedding_status''),
        (''rlhf_score'', row ''rlhf_score''),
        (''weak_supervision_score'', row ''weak_supervision_score''),
        (''diffusion_reasoning_score'', row ''diffusion_reasoning_score''),
        (''distributed_training_score'', row ''distributed_training_score''),
        (''datasets_score'', row ''datasets_score''),
        (''llm_validation_status'', row ''llm_validation_status''),
        (''rlhf_relevance'', row ''rlhf_relevance''),
        (''weak_supervision_relevance'', row ''weak_supervision_relevance''),
        (''diffusion_reasoning_relevance'', row ''diffusion_reasoning_relevance''),
        (''distributed_training_relevance'', row ''distributed_training_relevance''),
        (''datasets_relevance'', row ''datasets_relevance''),
        (''rlhf_justification'', row ''rlhf_justification''),
        (''weak_supervision_justification'', row ''weak_supervision_justification''),
        (''diffusion_reasoning_justification'', row ''diffusion_reasoning_justification''),
        (''distributed_training_justification'', row ''distributed_training_justification''),
        (''datasets_justification'', row ''datasets_justification''),
        (''llm_score_status'', row ''llm_score_status''),
        (''summary'', row ''summary''),
        (''novelty_score'', row ''novelty_score''),
        (''novelty_justification'', row ''novelty_justification''),
        (''impact_score'', row ''impact_score''),
        (''impact_justification'', row ''impact_justification''),
        (''recommendation_score'', row ''recommendation_score''),
        (''recommendation_justification'', row ''recommendation_justification''),
        (''h_index_status'', row ''h_index_status''),
        (''semantic_scholar_url'', row ''semantic_scholar_url''),
        (''total_authors'', row ''total_authors''),
        (''authors_found'', row ''authors_found''),
        (''highest_h_index'', row ''highest_h_index''),
        (''average_h_index'', row ''average_h_index''),
        (''notable_authors_count'', row ''notable_authors_count''),
        (''author_h_indexes'', author_h_indexes)]"
  using assms unfolding app_format_body_def Let_def
  by (auto simp: ebind_Inr split_def)

lemma builder_format_body_Inr:
  assumes "builder_format_body rt row = Inr paper"
  shows "\<exists>authors log1 categories log2 author_h_indexes log3 author_list category_list
    author_info_list published_date rlhf_score weak_supervision_score
    diffusion_reasoning_score distributed_training_score datasets_score average_h_index.
    builder_parse_json_field (row ''authors'') = Inr (authors, log1)
    \<and> builder_parse_json_field (row ''categories'') = Inr (categories, log2)
    \<and> builder_parse_json_field (row ''author_h_indexes'') = Inr (author_h_indexes, log3)
    \<and> py_iter authors = Inr author_list
    \<and> py_iter categories = Inr category_list
    \<and> py_iter author_h_indexes = Inr author_info_list
    \<and> normalize_date rt (row ''published_date'') = Inr published_date
    \<and> float_or_default rt (row ''rlhf_score'') = Inr rlhf_score
    \<and> float_or_default rt (row ''weak_supervision_score'') = Inr weak_supervision_score
    \<and> float_or_default rt (row ''diffusion_reasoning_score'') = Inr diffusion_reasoning_score
    \<and> float_or_default rt (row ''distributed_training_score'') = Inr distributed_training_score
    \<and> float_or_default rt (row ''datasets_score'') = Inr datasets_score
    \<and> float_or_default rt (row ''average_h_index'') = Inr average_h_index
    \<and> paper = PDict
       [(''id'', row ''id''),
        (''title'', row ''title''),
        (''authors'', PList author_list),
        (''categories'', PList category_list),
        (''abstract'', row ''abstract''),
        (''published_date'', published_date),
        (''arxiv_url'', row ''arxiv_url''),
        (''pdf_url'', row ''pdf_url''),
        (''scraper_status'', row ''scraper_status''),
        (''intro_status'', row ''intro_status''),
        (''embedding_status'', row ''embedding_status''),
        (''rlhf_score'', rlhf_score),
        (''weak_supervision_score'', weak_supervision_score),
        (''diffusion_reasoning_score'', diffusion_reasoning_score),
        (''distributed_training_score'', distributed_training_score),
        (''datasets_score'', datasets_score),
        (''llm_validation_status'', row ''llm_validation_status''),
        (''rlhf_relevance'', row ''rlhf_relevance''),
        (''weak_supervision_relevance'', row ''weak_supervision_relevance''),
        (''diffusion_reasoning_relevance'', row ''diffusion_reasoning_relevance''),
        (''distributed_training_relevance'', row ''distributed_training_relevance''),
        (''datasets_relevance'', row ''datasets_relevance''),
        (''rlhf_justification'', row ''rlhf_justification''),
        (''weak_supervision_justification'', row ''weak_supervision_justification''),
        (''diffusion_reasoning_justification'', row ''diffusion_reasoning_justification''),
        (''distributed_training_justification'', row ''distributed_training_justification''),
        (''datasets_justification'', row ''datasets_justification''),
        (''llm_score_status'', row ''llm_score_status''),
        (''summary'', row ''summary''),
        (''novelty_score'', row ''novelty_score''),
        (''novelty_justification'', row ''novelty_justification''),
        (''impact_score'', row ''impact_score''),
        (''impact_justification'', row ''impact_justification''),
        (''recommendation_score'', row ''recommendation_score''),
        (''recommendation_justification'', row ''recommendation_justification''),
        (''h_index_status'', row ''h_index_status''),
        (''semantic_scholar_url'', row ''semantic_scholar_url''),
        (''total_authors'', int_or_default (row ''total_authors'')),
        (''authors_found'', int_or_default (row ''authors_found'')),
        (''highest_h_index'', int_or_default (row ''highest_h_index'')),
        (''average_h_index'', average_h_index),
        (''notable_authors_count'', int_or_default (row ''notable_authors_count'')),
        (''author_h_indexes'', PList (escape_h_indexes author_info_list))]"
  using assms unfolding builder_format_body_def Let_def
  by (auto simp: ebind_Inr split_def safe_json_escape_id map_safe_json_escape)


lemma app_format_emitted:
  assumes "app_format_paper_data rt row \<noteq> PNone"
  shows "app_format_body rt row = Inr (app_format_paper_data rt row)"
  using assms by (cases "app_format_body rt row") (simp_all add: app_format_paper_data_def)

lemma builder_format_emitted:
  "builder_format_paper_data rt row = Inr paper \<longleftrightarrow> builder_format_body rt row = Inr paper"
  by (cases "builder_format_body rt row") (simp_all add: builder_format_paper_data_def)

subsection \<open>The emitted record as a function of its key\<close>

definition app_value :: "row \<Rightarrow> pyval \<Rightarrow> pyval \<Rightarrow> pyval \<Rightarrow> pyval \<Rightarrow> string \<Rightarrow> pyval" where
  "app_value row authors categories author_h_indexes published_date k =
     (if k = ''authors'' then authors
      else if k = ''categories'' then categories
      else if k = ''author_h_indexes'' then author_h_indexes
      else if k = ''published_date'' then published_date
      else row k)"

definition builder_value ::
  "row \<Rightarrow> pyval \<Rightarrow> pyval \<Rightarrow> pyval \<Rightarrow> pyval \<Rightarrow> (string \<Rightarrow> pyval) \<Rightarrow> string \<Rightarrow> pyval" where
  "builder_value row authors categories author_h_indexes published_date score k =
     (if k = ''authors'' then authors
      else if k = ''categories'' then categories
      else if k = ''author_h_indexes'' then author_h_indexes
      else if k = ''published_date'' then published_date
      else if k \<in> set float_default_keys then score k
      else if k \<in> set int_default_keys then int_or_default (row k)
      else row k)"

definition scores :: "pyval \<Rightarrow> pyval \<Rightarrow> pyval \<Rightarrow> pyval \<Rightarrow> pyval \<Rightarrow> pyval \<Rightarrow> string \<Rightarrow> pyval" where
  "scores rlhf_score weak_supervision_score diffusion_reasoning_score
      distributed_training_score datasets_score average_h_index k =
     (if k = ''rlhf_score'' then rlhf_score
      else if k = ''weak_supervision_score'' then weak_supervision_score
      else if k = ''diffusion_reasoning_score'' then diffusion_reasoning_score
      else if k = ''distributed_training_score'' then distributed_training_score
      else if k = ''datasets_score'' then datasets_score
      else average_h_index)"

lemma app_literal:
  "[(''id'', row ''id''),
        (''title'', row ''title''),
        (''authors'', authors),
        (''categories'', categories),
        (''abstract'', row ''abstract''),
        (''published_date'', published_date),
        (''arxiv_url'', row ''arxiv_url''),
        (''pdf_url'', row ''pdf_url''),
        (''scraper_status'', row ''scraper_status''),
        (''intro_status'', row ''intro_status''),
        (''embedding_status'', row ''embedding_status''),
        (''rlhf_score'', row ''rlhf_score''),
        (''weak_supervision_score'', row ''weak_supervision_score''),
        (''diffusion_reasoning_score'', row ''diffusion_reasoning_score''),
        (''distributed_training_score'', row ''distributed_training_score''),
        (''datasets_score'', row ''datasets_score''),
        (''llm_validation_status'', row ''llm_validation_status''),
        (''rlhf_relevance'', row ''rlhf_relevance''),
        (''weak_supervision_relevance'', row ''weak_supervision_relevance''),
        (''diffusion_reasoning_relevance'', row ''diffusion_reasoning_relevance''),
        (''distributed_training_relevance'', row ''distributed_training_relevance''),
        (''datasets_relevance'', row ''datasets_relevance''),
        (''rlhf_justification'', row ''rlhf_justification''),
        (''weak_supervision_justification'', row ''weak_supervision_justification''),
        (''diffusion_reasoning_justification'', row ''diffusion_reasoning_justification''),
        (''distributed_training_justification'', row ''distributed_training_justification''),
        (''datasets_justification'', row ''datasets_justification''),
        (''llm_score_status'', row ''llm_score_status''),
        (''summary'', row ''summary''),
        (''novelty_score'', row ''novelty_score''),
        (''novelty_justification'', row ''novelty_justification''),
        (''impact_score'', row ''impact_score''),
        (''impact_justification'', row ''impact_justification''),
        (''recommendation_score'', row ''recommendation_score''),
        (''recommendation_justification'', row ''recommendation_justification''),
        (''h_index_status'', row ''h_index_status''),
        (''semantic_scholar_url'', row ''semantic_scholar_url''),
        (''total_authors'', row ''total_authors''),
        (''authors_found'', row ''authors_found''),
        (''highest_h_index'', row ''highest_h_index''),
        (''average_h_index'', row ''average_h_index''),
        (''notable_authors_count'', row ''notable_authors_count''),
        (''author_h_indexes'', author_h_indexes)]
   = map (\<lambda>k. (k, app_value row authors categories author_h_indexes published_date k))
       schema_keys"
  by (simp add: schema_keys_def app_value_def)

lemma builder_literal:
  "[(''id'', row ''id''),
        (''title'', row ''title''),
        (''authors'', PList author_list),
        (''categories'', PList category_list),
        (''abstract'', row ''abstract''),
        (''published_date'', published_date),
        (''arxiv_url'', row ''arxiv_url''),
        (''pdf_url'', row ''pdf_url''),
        (''scraper_status'', row ''scraper_status''),
        (''intro_status'', row ''intro_status''),
        (''embedding_status'', row ''embedding_status''),
        (''rlhf_score'', rlhf_score),
        (''weak_supervision_score'', weak_supervision_score),
        (''diffusion_reasoning_score'', diffusion_reasoning_score),
        (''distributed_training_score'', distributed_training_score),
        (''datasets_score'', datasets_score),
        (''llm_validation_status'', row ''llm_validation_status''),
        (''rlhf_relevance'', row ''rlhf_relevance''),
        (''weak_supervision_relevance'', row ''weak_supervision_relevance''),
        (''diffusion_reasoning_relevance'', row ''diffusion_reasoning_relevance''),
        (''distributed_training_relevance'', row ''distributed_training_relevance''),
        (''datasets_relevance'', row ''datasets_relevance''),
        (''rlhf_justification'', row ''rlhf_justification''),
        (''weak_supervision_justification'', row ''weak_supervision_justification''),
        (''diffusion_reasoning_justification'', row ''diffusion_reasoning_justification''),
        (''distributed_training_justification'', row ''distributed_training_justification''),
        (''datasets_justification'', row ''datasets_justification''),
        (''llm_score_status'', row ''llm_score_status''),
        (''summary'', row ''summary''),
        (''novelty_score'', row ''novelty_score''),
        (''novelty_justification'', row ''novelty_justification''),
        (''impact_score'', row ''impact_score''),
        (''impact_justification'', row ''impact_justification''),
        (''recommendation_score'', row ''recommendation_score''),
        (''recommendation_justification'', row ''recommendation_justification''),
        (''h_index_status'', row ''h_index_status''),
        (''semantic_scholar_url'', row ''semantic_scholar_url''),
        (''total_authors'', int_or_default (row ''total_authors'')),
        (''authors_found'', int_or_default (row ''authors_found'')),
        (''highest_h_index'', int_or_default (row ''highest_h_index'')),
        (''average_h_index'', average_h_index),
        (''notable_authors_count'', int_or_default (row ''notable_authors_count'')),
        (''author_h_indexes'', PList (escape_h_indexes author_info_list))]
   = map (\<lambda>k. (k, builder_value row (PList author_list) (PList category_list)
                     (PList (escape_h_indexes author_info_list)) published_date
                     (scores rlhf_score weak_supervision_score diffusion_reasoning_score
                        distributed_training_score datasets_score average_h_index) k))
       schema_keys"
  by (simp add: schema_keys_def builder_value_def scores_def float_default_keys_def
      int_default_keys_def)

lemma field_map_keys:
  "field (PDict (map (\<lambda>k. (k, f k)) ks)) k = (if k \<in> set ks then Some (f k) else None)"
  by (simp add: field_def map_of_map_restrict restrict_map_def)

lemma keys_of_map_keys: "keys_of (PDict (map (\<lambda>k. (k, f k)) ks)) = ks"
  by (simp add: keys_of_def comp_def)


lemma app_format_body_record:
  assumes "app_format_body rt row = Inr paper"
  shows "\<exists>authors log1 categories log2 author_h_indexes log3 published_date.
    app_parse_json_field (row ''authors'') = Inr (authors, log1)
    \<and> app_parse_json_field (row ''categories'') = Inr (categories, log2)
    \<and> app_parse_json_field (row ''author_h_indexes'') = Inr (author_h_indexes, log3)
    \<and> normalize_date rt (row ''published_date'') = Inr published_date
    \<and> paper = PDict (map (\<lambda>k. (k, app_value row authors categories author_h_indexes
                                      published_date k)) schema_keys)"
  using app_format_body_Inr[OF assms] by (simp only: app_literal[of row])

lemma builder_format_body_record:
  assumes "builder_format_body rt row = Inr paper"
  shows "\<exists>authors log1 categories log2 author_h_indexes log3 author_list category_list
    author_info_list published_date rlhf_score weak_supervision_score
    diffusion_reasoning_score distributed_training_score datasets_score average_h_index.
    builder_parse_json_field (row ''authors'') = Inr (authors, log1)
    \<and> builder_parse_json_field (row ''categories'') = Inr (categories, log2)
    \<and> builder_parse_json_field (row ''author_h_indexes'') = Inr (author_h_indexes, log3)
    \<and> py_iter authors = Inr author_list
    \<and> py_iter categories = Inr category_list
    \<and> py_iter author_h_indexes = Inr author_info_list
    \<and> normalize_date rt (row ''published_date'') = Inr published_date
    \<and> float_or_default rt (row ''rlhf_score'') = Inr rlhf_score
    \<and> float_or_default rt (row ''weak_supervision_score'') = Inr weak_supervision_score
    \<and> float_or_default rt (row ''diffusion_reasoning_score'') = Inr diffusion_reasoning_score
    \<and> float_or_default rt (row ''distributed_training_score'') = Inr distributed_training_score
    \<and> float_or_default rt (row ''datasets_score'') = Inr datasets_score
    \<and> float_or_default rt (row ''average_h_index'') = Inr average_h_index
    \<and> paper = PDict (map (\<lambda>k. (k, builder_value row (PList author_list) (PList category_list)
                     (PList (escape_h_indexes author_info_list)) published_date
                     (scores rlhf_score weak_supervision_score diffusion_reasoning_score
                        distributed_training_score datasets_score average_h_index) k))
                   schema_keys)"
  using builder_format_body_Inr[OF assms] by (simp only: builder_literal[of row])

lemma app_paper_keys: "app_format_body rt row = Inr paper \<Longrightarrow> keys_of paper = schema_keys"
  by (drule app_format_body_record) (auto simp: keys_of_map_keys)

lemma builder_paper_keys: "builder_format_body rt row = Inr paper \<Longrightarrow> keys_of paper = schema_keys"
  by (drule builder_format_body_record) (auto simp: keys_of_map_keys)

text \<open>The live formatter copies every column but the three lists and the date.\<close>

lemma app_paper_copied:
  assumes "app_format_body rt row = Inr paper" "k \<in> set schema_keys"
    "k \<notin> set list_keys" "k \<noteq> ''published_date''"
  shows "field paper k = Some (row k)"
  using app_format_body_record[OF assms(1)] assms(2-4)
  by (auto simp: field_map_keys app_value_def list_keys_def)

text \<open>
  The static formatter copies every column but the three lists, the date, the six
  floats and the four counts.
\<close>

lemma builder_paper_copied:
  assumes "builder_format_body rt row = Inr paper" "k \<in> set schema_keys"
    "k \<notin> set list_keys" "k \<noteq> ''published_date''"
    "k \<notin> set float_default_keys" "k \<notin> set int_default_keys"
  shows "field paper k = Some (row k)"
  using builder_format_body_record[OF assms(1)] assms(2-6)
  by (auto simp: field_map_keys builder_value_def list_keys_def)

lemma int_keys_schema: "k \<in> set int_default_keys \<Longrightarrow> k \<in> set schema_keys"
  by (auto simp: int_default_keys_def schema_keys_def)

lemma float_keys_schema: "k \<in> set float_default_keys \<Longrightarrow> k \<in> set schema_keys"
  by (auto simp: float_default_keys_def schema_keys_def)

lemma text_keys_schema: "k \<in> set text_keys \<Longrightarrow> k \<in> set schema_keys"
  by (auto simp: text_keys_def schema_keys_def)

lemma list_keys_schema: "k \<in> set list_keys \<Longrightarrow> k \<in> set schema_keys"
  by (auto simp: list_keys_def schema_keys_def)

lemma text_keys_copied:
  assumes "k \<in> set text_keys"
  shows "k \<notin> set list_keys" "k \<noteq> ''published_date''"
    "k \<notin> set float_default_keys" "k \<notin> set int_default_keys"
  using assms
  by (auto simp: text_keys_def list_keys_def float_default_keys_def int_default_keys_def)

lemma int_keys_special:
  assumes "k \<in> set int_default_keys"
  shows "k \<notin> set list_keys" "k \<noteq> ''published_date''" "k \<notin> set float_default_keys"
  using assms
  by (auto simp: list_keys_def float_default_keys_def int_default_keys_def)

lemma float_keys_special:
  assumes "k \<in> set float_default_keys"
  shows "k \<notin> set list_keys" "k \<noteq> ''published_date''" "k \<notin> set int_default_keys"
  using assms
  by (auto simp: list_keys_def float_default_keys_def int_default_keys_def)

lemma builder_paper_counts:
  assumes "builder_format_body rt row = Inr paper" "k \<in> set int_default_keys"
  shows "field paper k = Some (int_or_default (row k))"
  using builder_format_body_record[OF assms(1)] int_keys_schema[OF assms(2)]
    int_keys_special[OF assms(2)] assms(2)
  by (auto simp: field_map_keys builder_value_def list_keys_def)

lemma builder_paper_floats:
  assumes "builder_format_body rt row = Inr paper" "k \<in> set float_default_keys"
  shows "\<exists>v. float_or_default rt (row k) = Inr v \<and> field paper k = Some v"
proof -
  from builder_format_body_record[OF assms(1)]
  obtain authors categories author_h_indexes published_date
    s1 s2 s3 s4 s5 s6 where
    f: "float_or_default rt (row ''rlhf_score'') = Inr s1"
      "float_or_default rt (row ''weak_supervision_score'') = Inr s2"
      "float_or_default rt (row ''diffusion_reasoning_score'') = Inr s3"
      "float_or_default rt (row ''distributed_training_score'') = Inr s4"
      "float_or_default rt (row ''datasets_score'') = Inr s5"
      "float_or_default rt (row ''average_h_index'') = Inr s6"
    and p: "paper = PDict (map (\<lambda>k. (k, builder_value row authors categories
              author_h_indexes published_date (scores s1 s2 s3 s4 s5 s6) k)) schema_keys)"
    by blast
  have "field paper k = Some (scores s1 s2 s3 s4 s5 s6 k)"
    using float_keys_schema[OF assms(2)] float_keys_special[OF assms(2)] assms(2)
    by (simp add: p field_map_keys builder_value_def list_keys_def)
  moreover have "float_or_default rt (row k) = Inr (scores s1 s2 s3 s4 s5 s6 k)"
    using assms(2) f by (auto simp: float_default_keys_def scores_def)
  ultimately show ?thesis by blast
qed

lemma date_key_schema: "''published_date'' \<in> set schema_keys"
  by (simp add: schema_keys_def)

lemma app_paper_date:
  assumes "app_format_body rt row = Inr paper"
  shows "\<exists>d. normalize_date rt (row ''published_date'') = Inr d
             \<and> field paper ''published_date'' = Some d"
  using app_format_body_record[OF assms]
  by (auto simp: field_map_keys app_value_def date_key_schema)

lemma builder_paper_date:
  assumes "builder_format_body rt row = Inr paper"
  shows "\<exists>d. normalize_date rt (row ''published_date'') = Inr d
             \<and> field paper ''published_date'' = Some d"
  using builder_format_body_record[OF assms]
  by (auto simp: field_map_keys builder_value_def date_key_schema)

lemma app_paper_lists:
  assumes "app_format_body rt row = Inr paper" "k \<in> set list_keys"
  shows "\<exists>v l. app_parse_json_field (row k) = Inr (v, l) \<and> field paper k = Some v"
  using app_format_body_record[OF assms(1)] assms(2) list_keys_schema[OF assms(2)]
  by (auto simp: field_map_keys app_value_def list_keys_def)

lemma builder_paper_lists:
  assumes "builder_format_body rt row = Inr paper"
  shows "\<exists>a la c lc h lh xs ys zs.
           builder_parse_json_field (row ''authors'') = Inr (a, la) \<and> py_iter a = Inr xs
           \<and> field paper ''authors'' = Some (PList xs)
           \<and> builder_parse_json_field (row ''categories'') = Inr (c, lc) \<and> py_iter c = Inr ys
           \<and> field paper ''categories'' = Some (PList ys)
           \<and> builder_parse_json_field (row ''author_h_indexes'') = Inr (h, lh)
           \<and> py_iter h = Inr zs
           \<and> field paper ''author_h_indexes'' = Some (PList (escape_h_indexes zs))"
  using builder_format_body_record[OF assms]
    list_keys_schema[of "''authors''"] list_keys_schema[of "''categories''"]
    list_keys_schema[of "''author_h_indexes''"]
  by (auto simp: field_map_keys builder_value_def list_keys_def)

section \<open>Claims\<close>


section \<open>The text pipeline on texts without a dollar sign\<close>

lemma match_inline_nodollar: "dollar \<notin> set s \<Longrightarrow> match_inline s = None"
  by (cases s) auto

lemma match_block_nodollar: "dollar \<notin> set s \<Longrightarrow> match_block s = None"
  by (cases s rule: match_block.cases) auto

lemma finditer_inline_nodollar: "dollar \<notin> set s \<Longrightarrow> finditer_inline s = []"
proof (induction s)
  case Nil
  then show ?case by simp
next
  case (Cons c cs)
  then have "match_inline (c # cs) = None" by (intro match_inline_nodollar)
  with Cons show ?case by simp
qed

lemma finditer_block_nodollar: "dollar \<notin> set s \<Longrightarrow> finditer_block s = []"
proof (induction s)
  case Nil
  then show ?case by simp
next
  case (Cons c cs)
  then have "match_block (c # cs) = None" by (intro match_block_nodollar)
  with Cons show ?case by simp
qed

lemma sub_inline_nodollar: "dollar \<notin> set s \<Longrightarrow> sub_inline s = s"
proof (induction s)
  case Nil
  then show ?case by simp
next
  case (Cons c cs)
  then have "match_inline (c # cs) = None" by (intro match_inline_nodollar)
  with Cons show ?case by simp
qed

lemma html_escape_char_nodollar: "c \<noteq> dollar \<Longrightarrow> dollar \<notin> set (html_escape_char c)"
  by (simp add: html_escape_char_def dollar_def)

lemma html_escape_nodollar: "dollar \<notin> set s \<Longrightarrow> dollar \<notin> set (html_escape s)"
  by (induction s) (auto simp: html_escape_def html_escape_char_nodollar)

lemma escape_html_str_nodollar: "dollar \<notin> set s \<Longrightarrow> escape_html_str s = html_escape s"
  by (simp add: escape_html_str_def finditer_block_nodollar finditer_inline_nodollar)

lemma convert_latex_str_nodollar: "dollar \<notin> set s \<Longrightarrow> convert_latex_str s = s"
  by (simp add: convert_latex_str_def finditer_block_nodollar sub_inline_nodollar)

lemma html_escape_append: "html_escape (a @ b) = html_escape a @ html_escape b"
  by (simp add: html_escape_def)

lemma html_escape_script: "html_escape ''<script>'' = ''&lt;script&gt;''"
  by (simp add: html_escape_def html_escape_char_def dquote_def squote_def)

lemma ex_alpha:
  "process_text_field (PStr ([dollar, bslash] @ ''alpha'' @ [dollar]))
     = PStr ([bslash] @ ''('' @ [bslash] @ ''alpha'' @ [bslash] @ '')'')"
  by code_simp

lemma ex_block:
  "process_text_field (PStr (''a < b: '' @ [dollar, dollar] @ ''E=mc^2'' @ [dollar, dollar]))
     = PStr (''a &lt; b: '' @ [bslash] @ ''[E=mc^2'' @ [bslash] @ '']'')"
  by code_simp


section \<open>The text pipeline on one math span\<close>

lemma startswith_append: "startswith (old @ s) old"
  by (induction old) auto

lemma replace_hit: "old \<noteq> [] \<Longrightarrow> replace old new (old @ s) = new @ replace old new s"
  by (cases old) (simp_all add: startswith_append)

lemma replace_skip: "c \<notin> set a \<Longrightarrow> replace (c # old) new (a @ s) = a @ replace (c # old) new s"
  by (induction a) auto

lemma replace_none: "c \<notin> set s \<Longrightarrow> replace (c # old) new s = s"
  by (induction s) auto

lemma replace_one:
  assumes "c \<notin> set a" "c \<notin> set b"
  shows "replace (c # old) new (a @ (c # old) @ b) = a @ new @ b"
proof -
  have "replace (c # old) new (a @ (c # old) @ b) = a @ replace (c # old) new ((c # old) @ b)"
    using assms(1) by (rule replace_skip)
  also have "replace (c # old) new ((c # old) @ b) = new @ replace (c # old) new b"
    by (rule replace_hit) simp
  also have "replace (c # old) new b = b"
    using assms(2) by (rule replace_none)
  finally show ?thesis .
qed

lemma run_nodollar_body:
  "dollar \<notin> set body \<Longrightarrow> run_nodollar (body @ dollar # rest) = body"
  by (induction body) (auto simp: run_nodollar_def)

lemma match_inline_hit:
  assumes "dollar \<notin> set body" "body \<noteq> []"
  shows "match_inline (dollar # body @ dollar # rest) = Some body"
  using assms by (simp add: run_nodollar_body)

lemma match_block_hit:
  assumes "dollar \<notin> set body" "body \<noteq> []"
  shows "match_block (dollar # dollar # body @ dollar # dollar # rest) = Some body"
  using assms by (simp add: run_nodollar_body)

lemma finditer_inline_skip: "dollar \<notin> set a \<Longrightarrow> finditer_inline (a @ s) = finditer_inline s"
proof (induction a)
  case Nil
  then show ?case by simp
next
  case (Cons c cs)
  then have "match_inline (c # cs @ s) = None" by auto
  with Cons show ?case by simp
qed

lemma finditer_block_skip: "dollar \<notin> set a \<Longrightarrow> finditer_block (a @ s) = finditer_block s"
proof (induction a)
  case Nil
  then show ?case by simp
next
  case (Cons c cs)
  then have "match_block (c # cs @ s) = None"
    by (cases "cs @ s") auto
  with Cons show ?case by simp
qed

lemma sub_inline_skip: "dollar \<notin> set a \<Longrightarrow> sub_inline (a @ s) = a @ sub_inline s"
proof (induction a)
  case Nil
  then show ?case by simp
next
  case (Cons c cs)
  then have "match_inline (c # cs @ s) = None" by auto
  with Cons show ?case by simp
qed

lemma finditer_inline_one:
  assumes "dollar \<notin> set pre" "dollar \<notin> set body" "body \<noteq> []" "dollar \<notin> set post"
  shows "finditer_inline (pre @ inline_span body @ post) = [body]"
proof -
  have "finditer_inline (pre @ inline_span body @ post)
          = finditer_inline (dollar # body @ dollar # post)"
    using assms(1) by (simp add: finditer_inline_skip inline_span_def)
  also have "\<dots> = body # finditer_inline post"
    using match_inline_hit[OF assms(2,3), of post] by simp
  also have "finditer_inline post = []"
    using assms(4) by (rule finditer_inline_nodollar)
  finally show ?thesis .
qed

lemma sub_inline_one:
  assumes "dollar \<notin> set pre" "dollar \<notin> set body" "body \<noteq> []" "dollar \<notin> set post"
  shows "sub_inline (pre @ inline_span body @ post)
           = pre @ [bslash, CHR ''(''] @ body @ [bslash, CHR '')''] @ post"
proof -
  have "sub_inline (pre @ inline_span body @ post)
          = pre @ sub_inline (dollar # body @ dollar # post)"
    using assms(1) by (simp add: sub_inline_skip inline_span_def)
  also have "sub_inline (dollar # body @ dollar # post)
               = [bslash, CHR ''(''] @ body @ [bslash, CHR '')''] @ sub_inline post"
    using match_inline_hit[OF assms(2,3), of post] by simp
  also have "sub_inline post = post"
    using assms(4) by (rule sub_inline_nodollar)
  finally show ?thesis by simp
qed

lemma finditer_block_one:
  assumes "dollar \<notin> set pre" "dollar \<notin> set body" "body \<noteq> []" "dollar \<notin> set post"
  shows "finditer_block (pre @ block_span body @ post) = [body]"
proof -
  have "finditer_block (pre @ block_span body @ post)
          = finditer_block (dollar # dollar # body @ dollar # dollar # post)"
    using assms(1) by (simp add: finditer_block_skip block_span_def)
  also have "\<dots> = body # finditer_block post"
  proof -
    have m: "match_block (dollar # dollar # body @ dollar # dollar # post) = Some body"
      by (rule match_block_hit[OF assms(2,3)])
    have d: "drop (length body + 4) (dollar # dollar # body @ dollar # dollar # post) = post"
      by (simp add: numeral_eq_Suc)
    show ?thesis
      by (subst finditer_block.simps(2)) (simp only: m d option.case)
  qed
  also have "finditer_block post = []"
    using assms(4) by (rule finditer_block_nodollar)
  finally show ?thesis .
qed

text \<open>A text with one inline span has no block span.\<close>

lemma finditer_block_inline:
  assumes "dollar \<notin> set pre" "dollar \<notin> set body" "body \<noteq> []" "dollar \<notin> set post"
  shows "finditer_block (pre @ inline_span body @ post) = []"
proof -
  obtain b bs where body: "body = b # bs" using assms(3) by (cases body) auto
  with assms(2) have b: "b \<noteq> dollar" by auto
  have last: "finditer_block (dollar # post) = []"
  proof (cases post)
    case Nil
    then show ?thesis by simp
  next
    case (Cons p ps)
    with assms(4) have "match_block (dollar # p # ps) = None" by auto
    moreover have "finditer_block (p # ps) = []"
      using assms(4) Cons finditer_block_nodollar by blast
    ultimately show ?thesis using Cons by simp
  qed
  have "finditer_block (pre @ inline_span body @ post)
          = finditer_block (dollar # body @ dollar # post)"
    using assms(1) by (simp add: finditer_block_skip inline_span_def)
  also have "\<dots> = finditer_block (body @ dollar # post)"
    using body b by simp
  also have "\<dots> = finditer_block (dollar # post)"
    using assms(2) by (rule finditer_block_skip)
  finally show ?thesis using last by simp
qed


lemma html_escape_char_no_underscore:
  "c \<noteq> CHR ''_'' \<Longrightarrow> CHR ''_'' \<notin> set (html_escape_char c)"
  by (simp add: html_escape_char_def)

lemma html_escape_no_underscore:
  "CHR ''_'' \<notin> set s \<Longrightarrow> CHR ''_'' \<notin> set (html_escape s)"
  by (induction s) (auto simp: html_escape_def html_escape_char_no_underscore)

lemma placeholder_values:
  "placeholder ''LATEX_BLOCK'' 0 = ''__LATEX_BLOCK_0__''"
  "placeholder ''LATEX_INLINE'' 0 = ''__LATEX_INLINE_0__''"
  "placeholder ''DISPLAY_MATH'' 0 = ''__DISPLAY_MATH_0__''"
  by (simp_all add: placeholder_def digit_char_def)

lemma html_escape_placeholders:
  "html_escape ''__LATEX_BLOCK_0__'' = ''__LATEX_BLOCK_0__''"
  "html_escape ''__LATEX_INLINE_0__'' = ''__LATEX_INLINE_0__''"
  by (simp_all add: html_escape_def html_escape_char_def dquote_def squote_def)

lemma placeholders_nodollar:
  "dollar \<notin> set ''__LATEX_BLOCK_0__''"
  "dollar \<notin> set ''__DISPLAY_MATH_0__''"
  by (simp_all add: dollar_def)

text \<open>
  One inline span between texts that hold no dollar sign and no underscore (the
  placeholders begin with an underscore): the surroundings are escaped, the span is
  rewritten, its content is untouched.
\<close>

lemma escape_inline_span:
  assumes "dollar \<notin> set pre" "dollar \<notin> set body" "body \<noteq> []" "dollar \<notin> set post"
    and "CHR ''_'' \<notin> set pre" "CHR ''_'' \<notin> set post"
  shows "escape_html_str (pre @ inline_span body @ post)
           = html_escape pre @ inline_span body @ html_escape post"
proof -
  let ?text = "pre @ inline_span body @ post"
  let ?ph = "''__LATEX_INLINE_0__''"
  have nb: "finditer_block ?text = []"
    by (rule finditer_block_inline[OF assms(1-4)])
  have il: "finditer_inline ?text = [body]"
    by (rule finditer_inline_one[OF assms(1-4)])
  have span: "inline_span body = dollar # (body @ [dollar])"
    by (simp add: inline_span_def)
  have r1: "replace (inline_span body) ?ph ?text = pre @ ?ph @ post"
    unfolding span using replace_one[OF assms(1) assms(4), of "body @ [dollar]" ?ph] by simp
  have esc: "html_escape (pre @ ?ph @ post) = html_escape pre @ ?ph @ html_escape post"
    by (simp only: html_escape_append html_escape_placeholders)
  have r2: "replace ?ph (inline_span body) (html_escape pre @ ?ph @ html_escape post)
              = html_escape pre @ inline_span body @ html_escape post"
    using replace_one[OF html_escape_no_underscore[OF assms(5)]
        html_escape_no_underscore[OF assms(6)], of "''_LATEX_INLINE_0__''" "inline_span body"]
    by simp
  show ?thesis
    unfolding escape_html_str_def nb
    by (simp only: list.map protect.simps split_conv Let_def placeholder_values
          AList.update.simps il r1 esc restore.simps r2)
qed

lemma convert_inline_span:
  assumes "dollar \<notin> set pre" "dollar \<notin> set body" "body \<noteq> []" "dollar \<notin> set post"
  shows "convert_latex_str (pre @ inline_span body @ post)
           = pre @ [bslash, CHR ''(''] @ body @ [bslash, CHR '')''] @ post"
  unfolding convert_latex_str_def finditer_block_inline[OF assms]
  by (simp add: sub_inline_one[OF assms])

lemma escape_block_span:
  assumes "dollar \<notin> set pre" "dollar \<notin> set body" "body \<noteq> []" "dollar \<notin> set post"
    and "CHR ''_'' \<notin> set pre" "CHR ''_'' \<notin> set post"
  shows "escape_html_str (pre @ block_span body @ post)
           = html_escape pre @ block_span body @ html_escape post"
proof -
  let ?text = "pre @ block_span body @ post"
  let ?ph = "''__LATEX_BLOCK_0__''"
  have bl: "finditer_block ?text = [body]"
    by (rule finditer_block_one[OF assms(1-4)])
  have span: "block_span body = dollar # (dollar # body @ [dollar, dollar])"
    by (simp add: block_span_def)
  have r1: "replace (block_span body) ?ph ?text = pre @ ?ph @ post"
    unfolding span
    using replace_one[OF assms(1) assms(4), of "dollar # body @ [dollar, dollar]" ?ph]
    by simp
  have "dollar \<notin> set (pre @ ?ph @ post)"
    using assms(1,4) placeholders_nodollar(1) by simp
  then have il: "finditer_inline (pre @ ?ph @ post) = []"
    by (rule finditer_inline_nodollar)
  have esc: "html_escape (pre @ ?ph @ post) = html_escape pre @ ?ph @ html_escape post"
    by (simp only: html_escape_append html_escape_placeholders)
  have r2: "replace ?ph (block_span body) (html_escape pre @ ?ph @ html_escape post)
              = html_escape pre @ block_span body @ html_escape post"
    using replace_one[OF html_escape_no_underscore[OF assms(5)]
        html_escape_no_underscore[OF assms(6)], of "''_LATEX_BLOCK_0__''" "block_span body"]
    by simp
  show ?thesis
    unfolding escape_html_str_def bl
    by (simp only: list.map protect.simps split_conv Let_def placeholder_values
          AList.update.simps r1 il esc restore.simps r2)
qed

lemma convert_block_span:
  assumes "dollar \<notin> set pre" "dollar \<notin> set body" "body \<noteq> []" "dollar \<notin> set post"
    and "CHR ''_'' \<notin> set pre" "CHR ''_'' \<notin> set post"
  shows "convert_latex_str (pre @ block_span body @ post)
           = pre @ [bslash, CHR ''[''] @ body @ [bslash, CHR '']''] @ post"
proof -
  let ?text = "pre @ block_span body @ post"
  let ?ph = "''__DISPLAY_MATH_0__''"
  let ?new = "[bslash, CHR ''[''] @ body @ [bslash, CHR '']'']"
  have bl: "finditer_block ?text = [body]"
    by (rule finditer_block_one[OF assms(1-4)])
  have span: "block_span body = dollar # (dollar # body @ [dollar, dollar])"
    by (simp add: block_span_def)
  have r1: "replace (block_span body) ?ph ?text = pre @ ?ph @ post"
    unfolding span
    using replace_one[OF assms(1) assms(4), of "dollar # body @ [dollar, dollar]" ?ph]
    by simp
  have "dollar \<notin> set (pre @ ?ph @ post)"
    using assms(1,4) placeholders_nodollar(2) by simp
  then have sub: "sub_inline (pre @ ?ph @ post) = pre @ ?ph @ post"
    by (rule sub_inline_nodollar)
  have r2: "replace ?ph ?new (pre @ ?ph @ post) = pre @ ?new @ post"
    using replace_one[OF assms(5) assms(6), of "''_DISPLAY_MATH_0__''" ?new]
    by simp
  show ?thesis
    unfolding convert_latex_str_def bl
    by (simp only: protect_display.simps split_conv Let_def list.size placeholder_values
          r1 sub append_Nil restore.simps r2 append_assoc)
qed


text \<open>
  Where the pipeline does what it is meant to do: \<^verbatim>\<open>process_text_field\<close> is
  \<^verbatim>\<open>convert_latex_to_mathjax\<close> after \<^verbatim>\<open>escape_html_text\<close>, for every value. On a text
  without a dollar sign it is the HTML escaping of the text, so a literal \<^verbatim>\<open><script>\<close>
  comes out as \<^verbatim>\<open>&lt;script&gt;\<close>. A text with one span between surroundings that hold
  no dollar sign and no underscore comes out with the surroundings escaped and the span
  rewritten, \<^verbatim>\<open>$...$\<close> to \<^verbatim>\<open>\(...\)\<close> and \<^verbatim>\<open>$$...$$\<close> to \<^verbatim>\<open>\[...\]\<close>, its content as
  it was.
\<close>

lemma process_text_field_pipeline:
  "process_text_field t = convert_latex_to_mathjax (escape_html_text t)
   \<and> (dollar \<notin> set s \<longrightarrow> process_text_field (PStr s) = PStr (html_escape s))
   \<and> html_escape (a @ ''<script>'' @ b) = html_escape a @ ''&lt;script&gt;'' @ html_escape b
   \<and> (dollar \<notin> set pre \<and> dollar \<notin> set body \<and> body \<noteq> [] \<and> dollar \<notin> set post
        \<and> CHR ''_'' \<notin> set pre \<and> CHR ''_'' \<notin> set post \<longrightarrow>
        process_text_field (PStr (pre @ inline_span body @ post))
          = PStr (html_escape pre @ [bslash, CHR ''(''] @ body @ [bslash, CHR '')'']
                  @ html_escape post)
        \<and> process_text_field (PStr (pre @ block_span body @ post))
          = PStr (html_escape pre @ [bslash, CHR ''[''] @ body @ [bslash, CHR '']'']
                  @ html_escape post))"
proof (intro conjI impI)
  show "process_text_field t = convert_latex_to_mathjax (escape_html_text t)"
    by (cases t)
      (simp_all add: process_text_field_def escape_html_text_def convert_latex_to_mathjax_def)
next
  assume "dollar \<notin> set s"
  then show "process_text_field (PStr s) = PStr (html_escape s)"
    by (simp add: process_text_field_def escape_html_text_def convert_latex_to_mathjax_def
        escape_html_str_nodollar convert_latex_str_nodollar html_escape_nodollar)
next
  show "html_escape (a @ ''<script>'' @ b) = html_escape a @ ''&lt;script&gt;'' @ html_escape b"
    by (simp only: html_escape_append html_escape_script)
next
  assume h: "dollar \<notin> set pre \<and> dollar \<notin> set body \<and> body \<noteq> [] \<and> dollar \<notin> set post
        \<and> CHR ''_'' \<notin> set pre \<and> CHR ''_'' \<notin> set post"
  then have d: "dollar \<notin> set pre" "dollar \<notin> set body" "body \<noteq> []" "dollar \<notin> set post"
    and u: "CHR ''_'' \<notin> set pre" "CHR ''_'' \<notin> set post"
    by simp_all
  have ed: "dollar \<notin> set (html_escape pre)" "dollar \<notin> set (html_escape post)"
    using d by (simp_all add: html_escape_nodollar)
  show "process_text_field (PStr (pre @ inline_span body @ post))
          = PStr (html_escape pre @ [bslash, CHR ''(''] @ body @ [bslash, CHR '')'']
                  @ html_escape post)"
    by (simp add: process_text_field_def escape_html_text_def convert_latex_to_mathjax_def
        escape_inline_span[OF d u] convert_inline_span[OF ed(1) d(2,3) ed(2)])
next
  assume h: "dollar \<notin> set pre \<and> dollar \<notin> set body \<and> body \<noteq> [] \<and> dollar \<notin> set post
        \<and> CHR ''_'' \<notin> set pre \<and> CHR ''_'' \<notin> set post"
  then have d: "dollar \<notin> set pre" "dollar \<notin> set body" "body \<noteq> []" "dollar \<notin> set post"
    and u: "CHR ''_'' \<notin> set pre" "CHR ''_'' \<notin> set post"
    by simp_all
  have ed: "dollar \<notin> set (html_escape pre)" "dollar \<notin> set (html_escape post)"
    using d by (simp_all add: html_escape_nodollar)
  have eu: "CHR ''_'' \<notin> set (html_escape pre)" "CHR ''_'' \<notin> set (html_escape post)"
    using u by (simp_all add: html_escape_no_underscore)
  show "process_text_field (PStr (pre @ block_span body @ post))
          = PStr (html_escape pre @ [bslash, CHR ''[''] @ body @ [bslash, CHR '']'']
                  @ html_escape post)"
    by (simp add: process_text_field_def escape_html_text_def convert_latex_to_mathjax_def
        escape_block_span[OF d u] convert_block_span[OF ed(1) d(2,3) ed(2) eu])
qed

lemma process_text_field_pipeline_examples:
  "process_text_field (PStr ''<script>'') = PStr ''&lt;script&gt;''
   \<and> process_text_field (PStr (''x<y '' @ [dollar, bslash] @ ''alpha'' @ [dollar] @ '' <script>''))
       = PStr (''x&lt;y '' @ [bslash] @ ''('' @ [bslash] @ ''alpha'' @ [bslash] @ '')''
               @ '' &lt;script&gt;'')
   \<and> process_text_field (PStr (''a < b: '' @ [dollar, dollar] @ ''E=mc^2'' @ [dollar, dollar]))
       = PStr (''a &lt; b: '' @ [bslash] @ ''[E=mc^2'' @ [bslash] @ '']'')"
  using process_text_field_pipeline[of "PStr ''<script>''" "''<script>''" "[]" "[]"
      "''x<y ''" "bslash # ''alpha''" "'' <script>''"]
    process_text_field_pipeline[of "PStr ''<script>''" "''<script>''" "[]" "[]"
      "''a < b: ''" "''E=mc^2''" "[]"]
  by (simp add: html_escape_def html_escape_char_def dollar_def bslash_def dquote_def
      squote_def inline_span_def block_span_def)

section \<open>The text pipeline on texts with several dollar signs\<close>

text \<open>
  C8. \<^verbatim>\<open>process_text_field\<close> is \<^verbatim>\<open>convert_latex_to_mathjax\<close> after \<^verbatim>\<open>escape_html_text\<close>,
  and on the texts of the claim it does what the claim says: \<^verbatim>\<open><script>\<close> comes out as
  \<^verbatim>\<open>&lt;script&gt;\<close>, \<^verbatim>\<open>$\alpha$\<close> as \<^verbatim>\<open>\(\alpha\)\<close>, \<^verbatim>\<open>$$E=mc^2$$\<close> next to a \<^verbatim>\<open><\<close> as
  \<^verbatim>\<open>\[E=mc^2\]\<close>, and two spans in one text are both rewritten. The code breaks the claim
  on other texts. In \<^verbatim>\<open>$a$$E=mc^2$$b$\<close> the block is replaced by its placeholder, the
  inline pattern then matches from the first dollar sign to the last, placeholder
  included, and the loop that restores the protected expressions meets the block's
  placeholder before the inline expression that holds it is back in the text: the
  formula is lost and \<^verbatim>\<open>__LATEX_BLOCK_0__\<close> is left in the result. The same happens to a
  display formula that follows a price. And a \<^verbatim>\<open><script>\<close> that stands between two
  prices is taken for mathematics and comes out as it went in.
\<close>

theorem process_text_field_loses_block:
  "process_text_field (PStr ''<script>'') = PStr ''&lt;script&gt;''
   \<and> process_text_field (PStr (''x<y $'' @ [bslash] @ ''alpha$ <script>''))
       = PStr (''x&lt;y '' @ [bslash] @ ''('' @ [bslash] @ ''alpha'' @ [bslash] @ '')''
               @ '' &lt;script&gt;'')
   \<and> process_text_field (PStr ''a < b: $$E=mc^2$$'')
       = PStr (''a &lt; b: '' @ [bslash] @ ''[E=mc^2'' @ [bslash] @ '']'')
   \<and> process_text_field (PStr ''a_b <i> $x$ and $y$ <script>'')
       = PStr (''a_b &lt;i&gt; '' @ [bslash] @ ''(x'' @ [bslash] @ '') and '' @ [bslash]
               @ ''(y'' @ [bslash] @ '') &lt;script&gt;'')
   \<and> escape_html_text (PStr ''$a$$E=mc^2$$b$'') = PStr ''$a__LATEX_BLOCK_0__b$''
   \<and> process_text_field (PStr ''$a$$E=mc^2$$b$'')
       = PStr ([bslash] @ ''(a__LATEX_BLOCK_0__b'' @ [bslash] @ '')'')
   \<and> process_text_field (PStr ''Costs $5. $$E=mc^2$$ and $x$'')
       = PStr (''Costs '' @ [bslash] @ ''(5. __LATEX_BLOCK_0__ and '' @ [bslash] @ '')x$'')
   \<and> process_text_field (PStr ''Costs $5 <script>alert(1)</script> and $6'')
       = PStr (''Costs '' @ [bslash] @ ''(5 <script>alert(1)</script> and '' @ [bslash]
               @ '')6'')"
  by code_simp

section \<open>When the formatters return a record\<close>

lemma builder_parse_json_field_as_app:
  "builder_parse_json_field x = Inr r \<Longrightarrow> app_parse_json_field x = Inr r"
  by (auto simp: builder_parse_json_field_def app_parse_json_field_def ebind_Inr
      split: sum.splits if_splits)


text \<open>The live formatter returns a record exactly when the date step does not raise.\<close>

lemma app_format_succeeds:
  assumes "normalize_date rt (row ''published_date'') = Inr d"
  shows "app_format_paper_data rt row \<noteq> PNone"
proof -
  obtain a la where a: "app_parse_json_field (row ''authors'') = Inr (a, la)"
    using app_parse_json_field_total by blast
  obtain c lc where c: "app_parse_json_field (row ''categories'') = Inr (c, lc)"
    using app_parse_json_field_total by blast
  obtain h lh where h: "app_parse_json_field (row ''author_h_indexes'') = Inr (h, lh)"
    using app_parse_json_field_total by blast
  have "\<exists>kvs. app_format_body rt row = Inr (PDict kvs)"
    by (simp add: app_format_body_def ebind_def a c h assms)
  then show ?thesis
    by (auto simp: app_format_paper_data_def)
qed

lemma app_format_fails:
  assumes "normalize_date rt (row ''published_date'') = Inl e"
  shows "app_format_paper_data rt row = PNone"
proof -
  obtain a la where a: "app_parse_json_field (row ''authors'') = Inr (a, la)"
    using app_parse_json_field_total by blast
  obtain c lc where c: "app_parse_json_field (row ''categories'') = Inr (c, lc)"
    using app_parse_json_field_total by blast
  obtain h lh where h: "app_parse_json_field (row ''author_h_indexes'') = Inr (h, lh)"
    using app_parse_json_field_total by blast
  have "app_format_body rt row = Inl e"
    by (simp add: app_format_body_def ebind_def a c h assms)
  then show ?thesis
    by (simp add: app_format_paper_data_def)
qed

lemma builder_format_date_fails:
  assumes "normalize_date rt (row ''published_date'') = Inl e"
  shows "builder_format_paper_data rt row = Inl AttributeError"
proof -
  have "\<exists>e'. builder_format_body rt row = Inl e'"
    by (auto simp: builder_format_body_def ebind_def assms Let_def split: sum.splits prod.splits)
  then show ?thesis
    by (auto simp: builder_format_paper_data_def)
qed

text \<open>A row whose three JSON columns are \<open>NULL\<close> and whose scores are \<open>NULL\<close> or floats.\<close>

lemma builder_format_succeeds:
  assumes "row ''authors'' = PNone" "row ''categories'' = PNone"
    "row ''author_h_indexes'' = PNone"
    "normalize_date rt (row ''published_date'') = Inr d"
    "\<forall>k \<in> set float_default_keys. row k = PNone \<or> (\<exists>f. row k = PFloat f)"
  shows "\<exists>kvs. builder_format_paper_data rt row = Inr (PDict kvs)"
proof -
  have p: "builder_parse_json_field PNone = Inr (PList [], [])"
    by (simp add: builder_parse_json_field_def)
  have f: "\<exists>v. float_or_default rt (row k) = Inr v" if "k \<in> set float_default_keys" for k
    using assms(5) that by (auto simp: float_or_default_def py_float_def)
  obtain s1 s2 s3 s4 s5 s6 where s:
      "float_or_default rt (row ''rlhf_score'') = Inr s1"
      "float_or_default rt (row ''weak_supervision_score'') = Inr s2"
      "float_or_default rt (row ''diffusion_reasoning_score'') = Inr s3"
      "float_or_default rt (row ''distributed_training_score'') = Inr s4"
      "float_or_default rt (row ''datasets_score'') = Inr s5"
      "float_or_default rt (row ''average_h_index'') = Inr s6"
    using f[of "''rlhf_score''"] f[of "''weak_supervision_score''"]
      f[of "''diffusion_reasoning_score''"] f[of "''distributed_training_score''"]
      f[of "''datasets_score''"] f[of "''average_h_index''"]
    by (auto simp: float_default_keys_def)
  have "\<exists>kvs. builder_format_body rt row = Inr (PDict kvs)"
    by (simp add: builder_format_body_def ebind_def assms(1-4) p py_iter_def s)
  then show ?thesis
    by (auto simp: builder_format_paper_data_def)
qed

subsection \<open>Rows for the examples\<close>

definition null_row :: row where
  "null_row k = PNone"

definition markup_row :: row where
  "markup_row k = (if k = ''title'' then PStr ''<b>$x$</b>'' else PNone)"

lemma normalize_date_null: "normalize_date rt PNone = Inr PNone"
  by (simp add: normalize_date_def)

lemma markup_row_app: "app_format_paper_data rt markup_row \<noteq> PNone"
  by (rule app_format_succeeds[where d = PNone]) (simp add: markup_row_def normalize_date_null)

lemma markup_row_builder: "\<exists>kvs. builder_format_paper_data rt markup_row = Inr (PDict kvs)"
  by (rule builder_format_succeeds[where d = PNone])
    (simp_all add: markup_row_def normalize_date_null float_default_keys_def)


section \<open>Claims about the two formatters\<close>

text \<open>
  C1, as stated, fails: a stored title with markup and dollar signs is emitted on both
  paths as it is stored, while the text pipeline would have escaped and rewritten it.
\<close>

theorem formatters_skip_text_pipeline:
  "field (app_format_paper_data cpython markup_row) ''title'' = Some (PStr ''<b>$x$</b>'')
   \<and> map_sum id (\<lambda>paper. field paper ''title'') (builder_format_paper_data cpython markup_row)
       = Inr (Some (PStr ''<b>$x$</b>''))
   \<and> process_text_field (PStr ''<b>$x$</b>'')
       = PStr (''&lt;b&gt;'' @ [bslash] @ ''(x'' @ [bslash] @ '')&lt;/b&gt;'')"
proof (intro conjI)
  have k: "''title'' \<in> set schema_keys" "''title'' \<notin> set list_keys"
    "''title'' \<notin> set float_default_keys" "''title'' \<notin> set int_default_keys"
    by (simp_all add: schema_keys_def list_keys_def float_default_keys_def int_default_keys_def)
  have "app_format_body cpython markup_row = Inr (app_format_paper_data cpython markup_row)"
    by (rule app_format_emitted[OF markup_row_app])
  from app_paper_copied[OF this k(1,2)]
  show "field (app_format_paper_data cpython markup_row) ''title'' = Some (PStr ''<b>$x$</b>'')"
    by (simp add: markup_row_def)
  obtain kvs where b: "builder_format_paper_data cpython markup_row = Inr (PDict kvs)"
    using markup_row_builder by blast
  then have "builder_format_body cpython markup_row = Inr (PDict kvs)"
    by (simp add: builder_format_emitted)
  from builder_paper_copied[OF this k(1,2) _ k(3,4)]
  have "field (PDict kvs) ''title'' = Some (PStr ''<b>$x$</b>'')"
    by (simp add: markup_row_def)
  with b show "map_sum id (\<lambda>paper. field paper ''title'')
                 (builder_format_paper_data cpython markup_row)
               = Inr (Some (PStr ''<b>$x$</b>''))"
    by simp
  show "process_text_field (PStr ''<b>$x$</b>'')
          = PStr (''&lt;b&gt;'' @ [bslash] @ ''(x'' @ [bslash] @ '')&lt;/b&gt;'')"
    by code_simp
qed

text \<open>
  C1. Corrected. Neither formatter runs the text pipeline: on both output paths every
  text field of an emitted record is the stored value, unchanged.
\<close>

theorem formatters_emit_text_unchanged:
  "(app_format_paper_data rt row \<noteq> PNone \<and> k \<in> set text_keys
      \<longrightarrow> field (app_format_paper_data rt row) k = Some (row k))
   \<and> (builder_format_paper_data rt row = Inr paper \<and> k \<in> set text_keys
      \<longrightarrow> field paper k = Some (row k))"
proof (intro conjI impI)
  assume a: "app_format_paper_data rt row \<noteq> PNone \<and> k \<in> set text_keys"
  then have k: "k \<in> set text_keys" by simp
  from a have "app_format_body rt row = Inr (app_format_paper_data rt row)"
    by (simp add: app_format_emitted)
  then show "field (app_format_paper_data rt row) k = Some (row k)"
    by (rule app_paper_copied) (rule text_keys_schema[OF k] text_keys_copied[OF k])+
next
  assume a: "builder_format_paper_data rt row = Inr paper \<and> k \<in> set text_keys"
  then have k: "k \<in> set text_keys" by simp
  from a have "builder_format_body rt row = Inr paper"
    by (simp add: builder_format_emitted)
  then show "field paper k = Some (row k)"
    by (rule builder_paper_copied) (rule text_keys_schema[OF k] text_keys_copied[OF k])+
qed

theorem formatters_emit_text_unchanged_witness:
  "field (app_format_paper_data cpython markup_row) ''title'' = Some (markup_row ''title'')
   \<and> (\<exists>kvs. builder_format_paper_data cpython markup_row = Inr (PDict kvs)
          \<and> field (PDict kvs) ''title'' = Some (markup_row ''title''))"
proof -
  have t: "''title'' \<in> set text_keys" by (simp add: text_keys_def)
  obtain kvs where b: "builder_format_paper_data cpython markup_row = Inr (PDict kvs)"
    using markup_row_builder by blast
  show ?thesis
    using formatters_emit_text_unchanged[of cpython markup_row "''title''" "PDict kvs"]
      markup_row_app[of cpython] t b
    by auto
qed

lemma null_row_app: "app_format_paper_data rt null_row \<noteq> PNone"
  by (rule app_format_succeeds[where d = PNone]) (simp add: null_row_def normalize_date_null)

lemma null_row_builder: "\<exists>kvs. builder_format_paper_data rt null_row = Inr (PDict kvs)"
  by (rule builder_format_succeeds[where d = PNone])
    (simp_all add: null_row_def normalize_date_null)

lemma float_or_default_null: "float_or_default rt PNone = Inr (PFloat (Finite 0))"
  by (simp add: float_or_default_def)

lemma float_or_default_float: "float_or_default rt (PFloat f) = Inr (PFloat f)"
  by (simp add: float_or_default_def py_float_def)

lemma builder_paper_null_lists:
  assumes "builder_format_body rt row = Inr paper" "k \<in> set list_keys" "row k = PNone"
  shows "field paper k = Some (PList [])"
proof -
  have p: "builder_parse_json_field PNone = Inr (PList [], [])"
    by (simp add: builder_parse_json_field_def)
  from builder_paper_lists[OF assms(1)] assms(2,3) show ?thesis
    by (auto simp: list_keys_def p py_iter_def)
qed

lemma app_paper_null_lists:
  assumes "app_format_body rt row = Inr paper" "k \<in> set list_keys" "row k = PNone"
  shows "field paper k = Some (PList [])"
  using app_paper_lists[OF assms(1,2)] assms(3)
  by (auto simp: app_parse_json_field_def)

text \<open>
  C3, as stated, fails: on a row whose \<open>rlhf_score\<close> is \<open>NULL\<close> the live formatter emits
  \<^verbatim>\<open>None\<close> and the static one emits \<open>0.0\<close>.
\<close>

theorem formatters_differ_on_null_score:
  "markup_row ''rlhf_score'' = PNone
   \<and> field (app_format_paper_data cpython markup_row) ''rlhf_score'' = Some PNone
   \<and> map_sum id (\<lambda>paper. field paper ''rlhf_score'')
        (builder_format_paper_data cpython markup_row) = Inr (Some (PFloat (Finite 0)))
   \<and> Inr (app_format_paper_data cpython markup_row)
        \<noteq> builder_format_paper_data cpython markup_row"
proof -
  have k: "''rlhf_score'' \<in> set schema_keys" "''rlhf_score'' \<notin> set list_keys"
    "''rlhf_score'' \<in> set float_default_keys"
    by (simp_all add: schema_keys_def list_keys_def float_default_keys_def)
  have r: "markup_row ''rlhf_score'' = PNone"
    by (simp add: markup_row_def)
  have "app_format_body cpython markup_row = Inr (app_format_paper_data cpython markup_row)"
    by (rule app_format_emitted[OF markup_row_app])
  from app_paper_copied[OF this k(1,2)]
  have a: "field (app_format_paper_data cpython markup_row) ''rlhf_score'' = Some PNone"
    by (simp add: r)
  obtain kvs where b: "builder_format_paper_data cpython markup_row = Inr (PDict kvs)"
    using markup_row_builder by blast
  then have "builder_format_body cpython markup_row = Inr (PDict kvs)"
    by (simp add: builder_format_emitted)
  from builder_paper_floats[OF this k(3)]
  have f: "field (PDict kvs) ''rlhf_score'' = Some (PFloat (Finite 0))"
    by (simp add: r float_or_default_null)
  from a f b have "app_format_paper_data cpython markup_row \<noteq> PDict kvs"
    by auto
  with r a b f show ?thesis by simp
qed

text \<open>
  C3. Corrected. On a row for which both formatters return a record, the two records
  have the same keys in the same order and the same value in every field that the static
  formatter copies (all but the six float scores, the four counts and the three lists);
  they also agree on a count that is not \<open>NULL\<close>, on a score stored as a float, and on
  \<open>authors\<close> and \<open>categories\<close> when the live value is a list.
\<close>

theorem formatters_agree_where_copied:
  "app_format_paper_data rt row \<noteq> PNone \<and> builder_format_paper_data rt row = Inr paper \<longrightarrow>
     keys_of (app_format_paper_data rt row) = keys_of paper
     \<and> (k \<in> set schema_keys \<and> k \<notin> set list_keys \<and> k \<notin> set float_default_keys
          \<and> k \<notin> set int_default_keys
        \<longrightarrow> field (app_format_paper_data rt row) k = field paper k)
     \<and> (k \<in> set int_default_keys \<and> row k \<noteq> PNone
        \<longrightarrow> field (app_format_paper_data rt row) k = field paper k)
     \<and> (k \<in> set float_default_keys \<and> (\<exists>f. row k = PFloat f)
        \<longrightarrow> field (app_format_paper_data rt row) k = field paper k)
     \<and> ((k = ''authors'' \<or> k = ''categories'')
          \<and> (\<exists>xs. field (app_format_paper_data rt row) k = Some (PList xs))
        \<longrightarrow> field (app_format_paper_data rt row) k = field paper k)"
proof (intro impI)
  assume h: "app_format_paper_data rt row \<noteq> PNone \<and> builder_format_paper_data rt row = Inr paper"
  let ?live = "app_format_paper_data rt row"
  from h have a: "app_format_body rt row = Inr ?live"
    by (simp add: app_format_emitted)
  from h have b: "builder_format_body rt row = Inr paper"
    by (simp add: builder_format_emitted)
  have keys: "keys_of ?live = keys_of paper"
    by (simp add: app_paper_keys[OF a] builder_paper_keys[OF b])
  have copied: "field ?live k = field paper k"
    if "k \<in> set schema_keys" "k \<notin> set list_keys" "k \<notin> set float_default_keys"
      "k \<notin> set int_default_keys"
  proof (cases "k = ''published_date''")
    case True
    with app_paper_date[OF a] builder_paper_date[OF b] show ?thesis by auto
  next
    case False
    with app_paper_copied[OF a that(1,2)] builder_paper_copied[OF b that(1,2) _ that(3,4)]
    show ?thesis by simp
  qed
  have counts: "field ?live k = field paper k" if "k \<in> set int_default_keys" "row k \<noteq> PNone"
    using app_paper_copied[OF a int_keys_schema[OF that(1)] int_keys_special(1,2)[OF that(1)]]
      builder_paper_counts[OF b that(1)] that(2)
    by (simp add: int_or_default_def)
  have floats: "field ?live k = field paper k"
    if "k \<in> set float_default_keys" "\<exists>f. row k = PFloat f"
    using app_paper_copied[OF a float_keys_schema[OF that(1)] float_keys_special(1,2)[OF that(1)]]
      builder_paper_floats[OF b that(1)] that(2)
    by (auto simp: float_or_default_float)
  have lists: "field ?live k = field paper k"
    if "k = ''authors'' \<or> k = ''categories''" "\<exists>xs. field ?live k = Some (PList xs)"
  proof -
    from that(1) have lk: "k \<in> set list_keys" by (auto simp: list_keys_def)
    from that(2) obtain xs where xs: "field ?live k = Some (PList xs)" by blast
    from app_paper_lists[OF a lk] xs obtain l where
      p: "app_parse_json_field (row k) = Inr (PList xs, l)" by auto
    from builder_paper_lists[OF b] that(1) obtain v lv ys where
      q: "builder_parse_json_field (row k) = Inr (v, lv)" "py_iter v = Inr ys"
        "field paper k = Some (PList ys)"
      by auto
    from builder_parse_json_field_as_app[OF q(1)] p have "v = PList xs" by simp
    with q(2) have "ys = xs" by (simp add: py_iter_def)
    with q(3) xs show ?thesis by simp
  qed
  from keys copied counts floats lists
  show "keys_of ?live = keys_of paper
     \<and> (k \<in> set schema_keys \<and> k \<notin> set list_keys \<and> k \<notin> set float_default_keys
          \<and> k \<notin> set int_default_keys
        \<longrightarrow> field ?live k = field paper k)
     \<and> (k \<in> set int_default_keys \<and> row k \<noteq> PNone \<longrightarrow> field ?live k = field paper k)
     \<and> (k \<in> set float_default_keys \<and> (\<exists>f. row k = PFloat f)
        \<longrightarrow> field ?live k = field paper k)
     \<and> ((k = ''authors'' \<or> k = ''categories'') \<and> (\<exists>xs. field ?live k = Some (PList xs))
        \<longrightarrow> field ?live k = field paper k)"
    by blast
qed

theorem formatters_agree_where_copied_witness:
  "\<exists>kvs. builder_format_paper_data cpython markup_row = Inr (PDict kvs)
     \<and> keys_of (app_format_paper_data cpython markup_row) = keys_of (PDict kvs)
     \<and> field (app_format_paper_data cpython markup_row) ''title'' = field (PDict kvs) ''title''
     \<and> field (app_format_paper_data cpython markup_row) ''authors''
         = field (PDict kvs) ''authors''"
proof -
  obtain kvs where b: "builder_format_paper_data cpython markup_row = Inr (PDict kvs)"
    using markup_row_builder by blast
  have a: "app_format_paper_data cpython markup_row \<noteq> PNone"
    by (rule markup_row_app)
  have t: "''title'' \<in> set schema_keys" "''title'' \<notin> set list_keys"
    "''title'' \<notin> set float_default_keys" "''title'' \<notin> set int_default_keys"
    by (simp_all add: schema_keys_def list_keys_def float_default_keys_def int_default_keys_def)
  have l: "\<exists>xs. field (app_format_paper_data cpython markup_row) ''authors'' = Some (PList xs)"
    using app_paper_null_lists[OF app_format_emitted[OF a], of "''authors''"]
    by (simp add: list_keys_def markup_row_def)
  from formatters_agree_where_copied[of cpython markup_row "PDict kvs" "''title''"]
    formatters_agree_where_copied[of cpython markup_row "PDict kvs" "''authors''"]
    a b t l
  show ?thesis by auto
qed


text \<open>
  C4, as stated, fails: the live formatter emits \<^verbatim>\<open>None\<close> for a \<open>NULL\<close> score or count,
  and the static formatter emits \<^verbatim>\<open>None\<close> for a \<open>NULL\<close> \<open>novelty_score\<close>.
\<close>

theorem live_path_emits_null_numeric:
  "null_row ''rlhf_score'' = PNone \<and> null_row ''total_authors'' = PNone
   \<and> field (app_format_paper_data cpython null_row) ''rlhf_score'' = Some PNone
   \<and> field (app_format_paper_data cpython null_row) ''total_authors'' = Some PNone
   \<and> map_sum id (\<lambda>paper. field paper ''novelty_score'')
        (builder_format_paper_data cpython null_row) = Inr (Some PNone)"
proof -
  have k: "''rlhf_score'' \<in> set schema_keys" "''rlhf_score'' \<notin> set list_keys"
    "''total_authors'' \<in> set schema_keys" "''total_authors'' \<notin> set list_keys"
    "''novelty_score'' \<in> set schema_keys" "''novelty_score'' \<notin> set list_keys"
    "''novelty_score'' \<notin> set float_default_keys" "''novelty_score'' \<notin> set int_default_keys"
    by (simp_all add: schema_keys_def list_keys_def float_default_keys_def int_default_keys_def)
  have a: "app_format_body cpython null_row = Inr (app_format_paper_data cpython null_row)"
    by (rule app_format_emitted[OF null_row_app])
  obtain kvs where b: "builder_format_paper_data cpython null_row = Inr (PDict kvs)"
    using null_row_builder by blast
  then have b': "builder_format_body cpython null_row = Inr (PDict kvs)"
    by (simp add: builder_format_emitted)
  from app_paper_copied[OF a k(1,2)] app_paper_copied[OF a k(3,4)]
    builder_paper_copied[OF b' k(5,6) _ k(7,8)] b
  show ?thesis by (simp add: null_row_def)
qed

text \<open>
  C4. Corrected. Every emitted record has every key of the schema, on both paths. On
  the static path a \<open>NULL\<close> in one of the five topic scores or in \<open>average_h_index\<close> is
  emitted as \<open>0.0\<close>, a \<open>NULL\<close> in one of the four counts as \<open>0\<close>, and a count that is
  not \<open>NULL\<close> as it is stored. On both paths a \<open>NULL\<close> list column is emitted as the
  empty list. The live path emits every score and count as it is stored.
\<close>

theorem record_schema_and_defaults:
  "(app_format_paper_data rt row \<noteq> PNone \<longrightarrow>
      keys_of (app_format_paper_data rt row) = schema_keys
      \<and> (k \<in> set list_keys \<and> row k = PNone
           \<longrightarrow> field (app_format_paper_data rt row) k = Some (PList []))
      \<and> (k \<in> set float_default_keys \<or> k \<in> set int_default_keys
           \<longrightarrow> field (app_format_paper_data rt row) k = Some (row k)))
   \<and> (builder_format_paper_data rt row = Inr paper \<longrightarrow>
      keys_of paper = schema_keys
      \<and> (k \<in> set float_default_keys \<and> row k = PNone
           \<longrightarrow> field paper k = Some (PFloat (Finite 0)))
      \<and> (k \<in> set int_default_keys \<and> row k = PNone \<longrightarrow> field paper k = Some (PInt 0))
      \<and> (k \<in> set int_default_keys \<and> row k \<noteq> PNone \<longrightarrow> field paper k = Some (row k))
      \<and> (k \<in> set list_keys \<and> row k = PNone \<longrightarrow> field paper k = Some (PList [])))"
proof (intro conjI impI)
  assume "app_format_paper_data rt row \<noteq> PNone"
  then have a: "app_format_body rt row = Inr (app_format_paper_data rt row)"
    by (rule app_format_emitted)
  show "keys_of (app_format_paper_data rt row) = schema_keys"
    by (rule app_paper_keys[OF a])
  show "field (app_format_paper_data rt row) k = Some (PList [])"
    if "k \<in> set list_keys \<and> row k = PNone"
    using app_paper_null_lists[OF a] that by blast
  show "field (app_format_paper_data rt row) k = Some (row k)"
    if "k \<in> set float_default_keys \<or> k \<in> set int_default_keys"
    using that
  proof
    assume k: "k \<in> set float_default_keys"
    show ?thesis
      by (rule app_paper_copied[OF a float_keys_schema[OF k] float_keys_special(1,2)[OF k]])
  next
    assume k: "k \<in> set int_default_keys"
    show ?thesis
      by (rule app_paper_copied[OF a int_keys_schema[OF k] int_keys_special(1,2)[OF k]])
  qed
next
  assume "builder_format_paper_data rt row = Inr paper"
  then have b: "builder_format_body rt row = Inr paper"
    by (simp add: builder_format_emitted)
  show "keys_of paper = schema_keys"
    by (rule builder_paper_keys[OF b])
  show "field paper k = Some (PFloat (Finite 0))"
    if "k \<in> set float_default_keys \<and> row k = PNone"
    using builder_paper_floats[OF b, of k] that by (auto simp: float_or_default_null)
  show "field paper k = Some (PInt 0)" if "k \<in> set int_default_keys \<and> row k = PNone"
    using builder_paper_counts[OF b, of k] that by (simp add: int_or_default_def)
  show "field paper k = Some (row k)" if "k \<in> set int_default_keys \<and> row k \<noteq> PNone"
    using builder_paper_counts[OF b, of k] that by (simp add: int_or_default_def)
  show "field paper k = Some (PList [])" if "k \<in> set list_keys \<and> row k = PNone"
    using builder_paper_null_lists[OF b] that by blast
qed

theorem record_schema_and_defaults_witness:
  "keys_of (app_format_paper_data cpython null_row) = schema_keys
   \<and> field (app_format_paper_data cpython null_row) ''authors'' = Some (PList [])
   \<and> field (app_format_paper_data cpython null_row) ''rlhf_score'' = Some PNone
   \<and> (\<exists>kvs. builder_format_paper_data cpython null_row = Inr (PDict kvs)
        \<and> keys_of (PDict kvs) = schema_keys
        \<and> field (PDict kvs) ''rlhf_score'' = Some (PFloat (Finite 0))
        \<and> field (PDict kvs) ''total_authors'' = Some (PInt 0)
        \<and> field (PDict kvs) ''authors'' = Some (PList []))"
proof -
  obtain kvs where b: "builder_format_paper_data cpython null_row = Inr (PDict kvs)"
    using null_row_builder by blast
  have k: "''authors'' \<in> set list_keys" "''rlhf_score'' \<in> set float_default_keys"
    "''total_authors'' \<in> set int_default_keys"
    by (simp_all add: list_keys_def float_default_keys_def int_default_keys_def)
  have n: "null_row ''authors'' = PNone" "null_row ''rlhf_score'' = PNone"
    "null_row ''total_authors'' = PNone"
    by (simp_all add: null_row_def)
  from record_schema_and_defaults[of cpython null_row "''authors''" "PDict kvs"]
    record_schema_and_defaults[of cpython null_row "''rlhf_score''" "PDict kvs"]
    record_schema_and_defaults[of cpython null_row "''total_authors''" "PDict kvs"]
    null_row_app[of cpython] b k n
  show ?thesis by auto
qed

text \<open>
  C10. \<^verbatim>\<open>safe_json_escape\<close> is the identity: whatever the value (\<^verbatim>\<open>None\<close>, a text,
  anything else) it is returned unchanged, every replacement being commented out. So the
  static formatter emits the text fields as stored, the author names and categories as
  decoded, and a profile URL as the entry holds it.
\<close>

theorem safe_json_escape_identity:
  "safe_json_escape v = v
   \<and> map safe_json_escape vs = vs
   \<and> (builder_format_paper_data rt row = Inr paper \<and> k \<in> set text_keys
        \<longrightarrow> field paper k = Some (row k))
   \<and> (builder_format_paper_data rt row = Inr paper \<longrightarrow>
        (\<exists>a la xs. builder_parse_json_field (row ''authors'') = Inr (a, la)
            \<and> py_iter a = Inr xs \<and> field paper ''authors'' = Some (PList xs))
        \<and> (\<exists>c lc ys. builder_parse_json_field (row ''categories'') = Inr (c, lc)
            \<and> py_iter c = Inr ys \<and> field paper ''categories'' = Some (PList ys)))
   \<and> escape_h_indexes [PDict kvs]
       = [PDict [(''name'', dict_get kvs ''name'' (PStr [])),
                 (''h_index'', dict_get kvs ''h_index'' (PInt 0)),
                 (''profile_url'', dict_get kvs ''profile_url'' (PStr []))]]"
proof (intro conjI impI)
  show "safe_json_escape v = v"
    by (simp add: safe_json_escape_def)
  show "map safe_json_escape vs = vs"
    by (rule map_safe_json_escape)
  show "field paper k = Some (row k)"
    if h: "builder_format_paper_data rt row = Inr paper \<and> k \<in> set text_keys"
  proof -
    from h have k: "k \<in> set text_keys" by simp
    from h have "builder_format_body rt row = Inr paper"
      by (simp add: builder_format_emitted)
    then show ?thesis
      by (rule builder_paper_copied) (rule text_keys_schema[OF k] text_keys_copied[OF k])+
  qed
  show "\<exists>a la xs. builder_parse_json_field (row ''authors'') = Inr (a, la)
            \<and> py_iter a = Inr xs \<and> field paper ''authors'' = Some (PList xs)"
    if "builder_format_paper_data rt row = Inr paper"
    using builder_paper_lists[of rt row paper] that by (auto simp: builder_format_emitted)
  show "\<exists>c lc ys. builder_parse_json_field (row ''categories'') = Inr (c, lc)
            \<and> py_iter c = Inr ys \<and> field paper ''categories'' = Some (PList ys)"
    if "builder_format_paper_data rt row = Inr paper"
    using builder_paper_lists[of rt row paper] that by (auto simp: builder_format_emitted)
  show "escape_h_indexes [PDict kvs]
       = [PDict [(''name'', dict_get kvs ''name'' (PStr [])),
                 (''h_index'', dict_get kvs ''h_index'' (PInt 0)),
                 (''profile_url'', dict_get kvs ''profile_url'' (PStr []))]]"
    by (simp add: safe_json_escape_id)
qed

theorem safe_json_escape_identity_witness:
  "safe_json_escape (PStr ''<b>$x$</b>'') = PStr ''<b>$x$</b>''
   \<and> safe_json_escape PNone = PNone
   \<and> (\<exists>p. builder_format_paper_data cpython markup_row = Inr (PDict p)
        \<and> field (PDict p) ''title'' = Some (PStr ''<b>$x$</b>'')
        \<and> field (PDict p) ''authors'' = Some (PList []))"
proof -
  obtain p where b: "builder_format_paper_data cpython markup_row = Inr (PDict p)"
    using markup_row_builder by blast
  have t: "''title'' \<in> set text_keys" by (simp add: text_keys_def)
  have n: "builder_parse_json_field (markup_row ''authors'') = Inr (PList [], [])"
    by (simp add: markup_row_def builder_parse_json_field_def)
  from safe_json_escape_identity[of "PStr ''<b>$x$</b>''" "[]" cpython markup_row "PDict p"
      "''title''" "[]"]
    safe_json_escape_identity[of PNone "[]" cpython markup_row "PDict p" "''title''" "[]"]
    b t n
  show ?thesis by (auto simp: markup_row_def py_iter_def)
qed

section \<open>Claims about the coercions\<close>








section \<open>The date of a record\<close>

text \<open>
  What the date step does on a text and on \<open>NULL\<close>: the ISO date if the text parses, else
  the leftmost \<^verbatim>\<open>\d{4}-\d{2}-\d{2}\<close>, else the text itself; never an exception.
\<close>

lemma normalize_date_text:
  "normalize_date rt (PStr s)
     = Inr (PStr (if s = [] then s
                  else (case rt_fromisoformat rt (replace ''Z'' ''+00:00'' s) of
                          Some dt \<Rightarrow> strftime_ymd dt
                        | None \<Rightarrow> (case search_date s of Some m \<Rightarrow> m | None \<Rightarrow> s))))"
  by (simp add: normalize_date_def iso_date_def regex_date_def split: option.splits)

lemma search_date_leftmost:
  "search_date s = Some m \<Longrightarrow>
     \<exists>n. n + 10 \<le> length s \<and> m = take 10 (drop n s) \<and> match_date (drop n s)
          \<and> (\<forall>i < n. \<not> match_date (drop i s))"
proof (induction s)
  case Nil
  then show ?case by simp
next
  case (Cons c cs)
  show ?case
  proof (cases "match_date (c # cs)")
    case True
    with Cons.prems have "m = take 10 (c # cs)" by simp
    moreover from True have "10 \<le> length (c # cs)" by (simp add: match_date_def)
    ultimately show ?thesis using True by (intro exI[of _ 0]) simp
  next
    case False
    with Cons.prems have "search_date cs = Some m" by simp
    from Cons.IH[OF this] obtain n where
      n: "n + 10 \<le> length cs" "m = take 10 (drop n cs)" "match_date (drop n cs)"
        "\<forall>i < n. \<not> match_date (drop i cs)"
      by blast
    have "\<forall>i < Suc n. \<not> match_date (drop i (c # cs))"
    proof (intro allI impI)
      fix i assume "i < Suc n"
      then show "\<not> match_date (drop i (c # cs))"
        using False n(4) by (cases i) auto
    qed
    with n show ?thesis by (intro exI[of _ "Suc n"]) simp
  qed
qed

lemma normalize_date_iso_example:
  "normalize_date cpython (PStr ''2025-07-15T00:00:00Z'') = Inr (PStr ''2025-07-15'')"
  by code_simp

lemma normalize_date_bad_example:
  "normalize_date cpython (PStr ''bad-date'') = Inr (PStr ''bad-date'')"
  by code_simp

definition julian_row :: row where
  "julian_row k = (if k = ''published_date'' then PInt 2460872 else PNone)"

text \<open>
  C7. The claim holds for a text and for \<open>NULL\<close> (the lemmas above), and the code breaks
  it for a number: \<^verbatim>\<open>published_date.replace\<close> raises \<^verbatim>\<open>AttributeError\<close>, which the
  handler catches, and the handler's \<^verbatim>\<open>re.search\<close> then raises \<^verbatim>\<open>TypeError\<close>. The live
  formatter drops the record, the static one fails.
\<close>

theorem normalize_date_raises_on_number:
  "normalize_date cpython (PInt 2460872) = Inl TypeError
   \<and> app_format_paper_data cpython julian_row = PNone
   \<and> builder_format_paper_data cpython julian_row = Inl AttributeError"
proof -
  have n: "normalize_date cpython (PInt 2460872) = Inl TypeError"
    by (simp add: normalize_date_def iso_date_def regex_date_def)
  have r: "julian_row ''published_date'' = PInt 2460872"
    by (simp add: julian_row_def)
  from n r app_format_fails[of cpython julian_row TypeError]
    builder_format_date_fails[of cpython julian_row TypeError]
  show ?thesis by simp
qed

section \<open>The payload of a static page\<close>

definition comment_payload :: pyval where
  "comment_payload =
     PDict [(''date'', PStr ''2025-07-15''), (''total_papers'', PInt 1),
            (''papers'', PList [PDict [(''id'', PInt 7), (''title'', PStr ''see <!-- this'')]])]"

definition arrow_payload :: pyval where
  "arrow_payload =
     PDict [(''date'', PStr ''2025-07-15''), (''total_papers'', PInt 1),
            (''papers'', PList [PDict [(''id'', PInt 7), (''title'', PStr ''A --> B'')]])]"

definition script_payload :: pyval where
  "script_payload =
     PDict [(''date'', PStr ''2025-07-15''), (''total_papers'', PInt 1),
            (''papers'', PList [PDict [(''id'', PInt 7), (''title'', PStr ''x </script> y''),
                                      (''abstract'', PStr ''costs $5'')]])]"

text \<open>
  C9. The claim holds for \<^verbatim>\<open></script>\<close> and an unbalanced dollar sign, and the code
  breaks it for \<^verbatim>\<open><!--\<close> and \<^verbatim>\<open>-->\<close>: the replacements write \<^verbatim>\<open>\!\<close> and \<^verbatim>\<open>\>\<close>, which
  are not JSON escapes, so the output of \<^verbatim>\<open>safe_json_dumps\<close> does not decode, while the
  output of \<^verbatim>\<open>json.dumps\<close> before the replacements does.
\<close>

theorem safe_json_dumps_comment_not_json:
  "json_loads (PStr (safe_json_dumps cpython comment_payload)) = Inl JSONDecodeError
   \<and> json_loads (PStr (safe_json_dumps cpython arrow_payload)) = Inl JSONDecodeError
   \<and> json_loads (PStr (dumps (rt_repr cpython) 0 comment_payload)) = Inr comment_payload
   \<and> json_loads (PStr (safe_json_dumps cpython script_payload)) = Inr script_payload"
  by code_simp

section \<open>The pages of a date\<close>

text \<open>A row of 15 July 2025 with every other column \<open>NULL\<close>, and two databases: one
  with no row at all, one with 25 such rows.\<close>

definition dated_row :: row where
  "dated_row k = (if k = ''published_date'' then PStr ''2025-07-15T00:00:00Z'' else PNone)"

definition empty_db :: database where
  "empty_db = \<lparr> db_papers = (\<lambda>d. Some []), db_dates = Some [] \<rparr>"

definition full_db :: database where
  "full_db = \<lparr> db_papers = (\<lambda>d. if d = ''2025-07-15'' then Some (replicate 25 dated_row)
                                  else Some []),
               db_dates = Some [''2025-07-15''] \<rparr>"

lemma strptime_example: "strptime_ymd ''2025-07-15'' = Some (2025, 7, 15)"
  by code_simp

lemma str_int_examples: "str_int 4 = ''4''" "str_int 3 = ''3''"
  by code_simp+

text \<open>The ceiling division of the source is the ceiling of the quotient.\<close>

lemma ceiling_division:
  fixes t l :: int
  assumes "0 < l"
  shows "(t + l - 1) div l = \<lceil>real_of_int t / real_of_int l\<rceil>"
proof -
  have c: "\<lceil>real_of_int t / real_of_int l\<rceil> = - ((- t) div l)"
    by (simp add: ceiling_divide_eq_div)
  show ?thesis
  proof (cases "t mod l = 0")
    case True
    then have "l dvd t" by (simp add: mod_eq_0_iff_dvd)
    then have "t div l * l = t" by (rule dvd_div_mult_self)
    then obtain q where q: "t = q * l" by (rule that[OF sym])
    have "(q * l + l - 1) div l = q + (l - 1) div l"
      using assms by (metis add_diff_eq div_mult_self3 less_irrefl add.commute)
    also have "(l - 1) div l = 0"
      using assms by (simp add: div_pos_pos_trivial)
    finally show ?thesis
      using assms by (simp add: c q)
  next
    case False
    have r: "0 < t mod l" "t mod l < l"
      using assms False by (smt (verit) pos_mod_sign, simp)
    have "t + l - 1 = (t div l + 1) * l + (t mod l - 1)"
      by (simp add: algebra_simps)
    then have "(t + l - 1) div l = (t div l + 1) + (t mod l - 1) div l"
      using assms by (metis div_mult_self3 less_irrefl add.commute)
    also have "(t mod l - 1) div l = 0"
      using r by (simp add: div_pos_pos_trivial)
    finally show ?thesis
      using assms False by (simp add: c zdiv_zminus1_eq_if)
  qed
qed


lemma ceiling_example: "\<lceil>real_of_int 25 / real_of_int 10\<rceil> = 3"
  using ceiling_division[of 10 25] by simp

text \<open>
  C5, as stated, fails on a date without papers: page 2 is then beyond the 0 pages
  there are, and it is answered with an empty envelope whose \<open>has_prev\<close> is false.
\<close>

theorem get_papers_empty_date_not_rejected:
  "get_papers cpython (Some empty_db) (Some ''2025-07-15'') 2 10
     = (PDict [(''papers'', PList []), (''page'', PInt 2), (''limit'', PInt 10),
               (''total_papers'', PInt 0), (''total_pages'', PInt 0),
               (''has_next'', PBool False), (''has_prev'', PBool False)], 200)"
  by (simp add: get_papers_def strptime_example empty_db_def)

text \<open>
  C5. Corrected. For a request with a well-formed date, \<open>1 \<le> limit \<le> 100\<close> and
  \<open>page \<ge> 1\<close>, on a database that answers: if the date has papers, a page beyond
  \<open>\<lceil>total_papers / limit\<rceil>\<close> is rejected with status 400 and the out-of-bounds message,
  and any other page is answered with status 200 and an envelope in which \<open>total_pages\<close>
  is that ceiling, \<open>has_next\<close> is \<open>page < total_pages\<close>, \<open>has_prev\<close> is \<open>page > 1\<close>,
  and \<open>papers\<close> holds the records of rows \<open>(page - 1) * limit\<close> onwards, at most \<open>limit\<close>
  of them, those that failed to format left out. If the date has no paper, every page
  is answered with the empty envelope: 0 pages, \<open>has_next\<close> and \<open>has_prev\<close> false.
\<close>

theorem get_papers_pagination:
  assumes "d \<noteq> []" "strptime_ymd d \<noteq> None" "1 \<le> page" "1 \<le> limit" "limit \<le> 100"
    and "db_papers db d = Some matching"
  shows "(matching \<noteq> [] \<and> page > \<lceil>real_of_int (int (length matching)) / real_of_int limit\<rceil>
           \<longrightarrow> get_papers rt (Some db) (Some d) page limit
                 = error_response (''Page '' @ str_int page @ '' is out of bounds. Total pages: ''
                     @ str_int \<lceil>real_of_int (int (length matching)) / real_of_int limit\<rceil>) 400)
       \<and> (matching \<noteq> [] \<and> page \<le> \<lceil>real_of_int (int (length matching)) / real_of_int limit\<rceil>
           \<longrightarrow> snd (get_papers rt (Some db) (Some d) page limit) = 200
               \<and> field (fst (get_papers rt (Some db) (Some d) page limit)) ''total_pages''
                   = Some (PInt \<lceil>real_of_int (int (length matching)) / real_of_int limit\<rceil>)
               \<and> field (fst (get_papers rt (Some db) (Some d) page limit)) ''has_next''
                   = Some (PBool
                       (page < \<lceil>real_of_int (int (length matching)) / real_of_int limit\<rceil>))
               \<and> field (fst (get_papers rt (Some db) (Some d) page limit)) ''has_prev''
                   = Some (PBool (page > 1))
               \<and> field (fst (get_papers rt (Some db) (Some d) page limit)) ''total_papers''
                   = Some (PInt (int (length matching)))
               \<and> field (fst (get_papers rt (Some db) (Some d) page limit)) ''page''
                   = Some (PInt page)
               \<and> field (fst (get_papers rt (Some db) (Some d) page limit)) ''limit''
                   = Some (PInt limit)
               \<and> field (fst (get_papers rt (Some db) (Some d) page limit)) ''papers''
                   = Some (PList (filter truthy (map (app_format_paper_data rt)
                       (take (nat limit) (drop (nat ((page - 1) * limit)) matching)))))
               \<and> length (filter truthy (map (app_format_paper_data rt)
                       (take (nat limit) (drop (nat ((page - 1) * limit)) matching))))
                   \<le> nat limit)
       \<and> (matching = []
           \<longrightarrow> get_papers rt (Some db) (Some d) page limit
                 = (PDict [(''papers'', PList []), (''page'', PInt page), (''limit'', PInt limit),
                           (''total_papers'', PInt 0), (''total_pages'', PInt 0),
                           (''has_next'', PBool False), (''has_prev'', PBool False)], 200))"
proof -
  have c: "(int (length matching) + limit - 1) div limit
             = \<lceil>real_of_int (int (length matching)) / real_of_int limit\<rceil>"
    using assms(4) by (intro ceiling_division) simp
  have g: "get_papers rt (Some db) (Some d) page limit =
     (let total_papers = int (length matching)
      in if total_papers = 0 then
           (PDict [(''papers'', PList []), (''page'', PInt page),
                   (''limit'', PInt limit), (''total_papers'', PInt 0),
                   (''total_pages'', PInt 0), (''has_next'', PBool False),
                   (''has_prev'', PBool False)], 200)
         else
           (let total_pages = (total_papers + limit - 1) div limit;
                offset = (page - 1) * limit
            in if page > total_pages then
                 error_response
                   (''Page '' @ str_int page @ '' is out of bounds. Total pages: ''
                      @ str_int total_pages) 400
               else
                 (let rows = take (nat limit) (drop (nat offset) matching);
                      papers = filter truthy (map (app_format_paper_data rt) rows)
                  in (PDict [(''papers'', PList papers), (''page'', PInt page),
                             (''limit'', PInt limit),
                             (''total_papers'', PInt total_papers),
                             (''total_pages'', PInt total_pages),
                             (''has_next'', PBool (page < total_pages)),
                             (''has_prev'', PBool (page > 1))], 200))))"
    using assms by (auto simp: get_papers_def)
  have l: "length (filter truthy (map (app_format_paper_data rt)
             (take (nat limit) (drop (nat ((page - 1) * limit)) matching)))) \<le> nat limit"
    by (rule order_trans[OF length_filter_le]) simp
  show ?thesis
    unfolding g Let_def c
    using l by (simp add: field_def)
qed

theorem get_papers_pagination_witness:
  "field (fst (get_papers cpython (Some full_db) (Some ''2025-07-15'') 3 10)) ''total_pages''
     = Some (PInt 3)
   \<and> field (fst (get_papers cpython (Some full_db) (Some ''2025-07-15'') 3 10)) ''has_next''
     = Some (PBool False)
   \<and> field (fst (get_papers cpython (Some full_db) (Some ''2025-07-15'') 3 10)) ''has_prev''
     = Some (PBool True)
   \<and> snd (get_papers cpython (Some full_db) (Some ''2025-07-15'') 3 10) = 200
   \<and> get_papers cpython (Some full_db) (Some ''2025-07-15'') 4 10
     = error_response ''Page 4 is out of bounds. Total pages: 3'' 400"
proof -
  have m: "db_papers full_db ''2025-07-15'' = Some (replicate 25 dated_row)"
    by (simp add: full_db_def)
  have c: "\<lceil>real_of_int (int (length (replicate 25 dated_row))) / real_of_int 10\<rceil> = 3"
    using ceiling_example by simp
  from get_papers_pagination[of "''2025-07-15''" 3 10 full_db "replicate 25 dated_row" cpython]
    get_papers_pagination[of "''2025-07-15''" 4 10 full_db "replicate 25 dated_row" cpython]
  show ?thesis
    unfolding c by (simp add: strptime_example m str_int_examples)
qed


section \<open>A template without the payload placeholder\<close>

text \<open>\<^verbatim>\<open>old in s\<close>\<close>

fun contains :: "string \<Rightarrow> string \<Rightarrow> bool" where
  "contains old [] = (old = [])"
| "contains old (c # cs) = (startswith (c # cs) old \<or> contains old cs)"

text \<open>
  The first three replacements of \<^verbatim>\<open>generate_static_page\<close>, which put the titles in:
  \<^verbatim>\<open>
  html_content = html_content.replace('PLACEHOLDER_TITLE', formatted_date)
  html_content = html_content.replace('PLACEHOLDER_MOBILE_TITLE', page_title)
  html_content = html_content.replace('PLACEHOLDER_DESKTOP_TITLE', page_title)
  \<close>
\<close>

definition substitute_titles :: "string \<Rightarrow> string \<Rightarrow> string" where
  "substitute_titles date template_content =
     (let formatted_date = format_date_for_title date;
          page_title = ''Papers Published on '' @ formatted_date;
          html_content = template_content;
          html_content = replace ''PLACEHOLDER_TITLE'' formatted_date html_content;
          html_content = replace ''PLACEHOLDER_MOBILE_TITLE'' page_title html_content;
          html_content = replace ''PLACEHOLDER_DESKTOP_TITLE'' page_title html_content
      in html_content)"

definition bare_template :: string where
  "bare_template = ''<html><body><h1>Papers</h1></body></html>''"

lemma contains_empty: "contains [] s"
  by (cases s) auto

lemma replace_absent: "\<not> contains old s \<Longrightarrow> replace old new s = s"
proof (induction s)
  case Nil
  then show ?case by simp
next
  case (Cons c cs)
  from Cons.prems have "old \<noteq> []" using contains_empty by blast
  with Cons show ?case by simp
qed

lemma generate_static_page_titles:
  "generate_static_page rt date paper_data template_content
     = Inr (replace ''<!--DATA_HERE-->'' (safe_json_dumps rt paper_data)
              (substitute_titles date template_content))"
  by (simp add: generate_static_page_def substitute_titles_def Let_def)

lemma substitute_titles_absent:
  assumes "\<not> contains ''PLACEHOLDER_TITLE'' template_content"
    "\<not> contains ''PLACEHOLDER_MOBILE_TITLE'' template_content"
    "\<not> contains ''PLACEHOLDER_DESKTOP_TITLE'' template_content"
  shows "substitute_titles date template_content = template_content"
  unfolding substitute_titles_def Let_def
  by (simp only: replace_absent[OF assms(1)] replace_absent[OF assms(2)]
      replace_absent[OF assms(3)])

lemma format_rows_length:
  "format_rows rt rows = Inr papers \<Longrightarrow> length papers = length rows"
proof (induction rows arbitrary: papers)
  case Nil
  then show ?case by simp
next
  case (Cons r rs)
  from Cons.prems obtain p ps where
    "builder_format_paper_data rt r = Inr p" "format_rows rt rs = Inr ps" "papers = p # ps"
    by (auto simp: ebind_Inr)
  with Cons.IH show ?case by simp
qed

lemma format_rows_replicate:
  assumes "builder_format_paper_data rt r = Inr p"
  shows "format_rows rt (replicate n r) = Inr (replicate n p)"
  by (induction n) (simp_all add: assms ebind_def)

lemma build_without_placeholder:
  assumes "date \<noteq> []" "db_papers db date = Some rows" "rows \<noteq> []"
    "format_rows rt rows = Inr papers"
    "\<not> contains ''<!--DATA_HERE-->'' (substitute_titles date template_content)"
  shows "build_static_site rt (Some db) (Some template_content) (Some date) None
           = (None, [(''output/'' @ date @ ''.html'', substitute_titles date template_content)])"
proof -
  have n: "int (length papers) \<noteq> 0"
    using format_rows_length[OF assms(4)] assms(3) by simp
  have g: "get_papers_for_date rt (Some db) date None
             = Inr (PDict [(''papers'', PList papers),
                           (''total_papers'', PInt (int (length papers))),
                           (''date'', PStr date)])"
    using assms(2,3,4) by (simp add: get_papers_for_date_def ebind_def)
  have p: "generate_static_page rt date
             (PDict [(''papers'', PList papers), (''total_papers'', PInt (int (length papers))),
                     (''date'', PStr date)]) template_content
             = Inr (substitute_titles date template_content)"
    by (simp only: generate_static_page_titles replace_absent[OF assms(5)])
  show ?thesis
    using assms(1) n by (simp add: build_static_site_def g p field_def)
qed

lemma dated_row_builder: "\<exists>kvs. builder_format_paper_data cpython dated_row = Inr (PDict kvs)"
  by (rule builder_format_succeeds[where d = "PStr ''2025-07-15''"])
    (simp_all add: dated_row_def normalize_date_iso_example float_default_keys_def)

lemma bare_template_absent:
  "\<not> contains ''PLACEHOLDER_TITLE'' bare_template"
  "\<not> contains ''PLACEHOLDER_MOBILE_TITLE'' bare_template"
  "\<not> contains ''PLACEHOLDER_DESKTOP_TITLE'' bare_template"
  "\<not> contains ''<!--DATA_HERE-->'' bare_template"
  by code_simp+

text \<open>
  C2, as stated, fails: on a template with no placeholder at all, for a date with 25
  papers, \<^verbatim>\<open>generate_static_page\<close> returns the template as it is and the build ends
  without an exception, having written it to \<^verbatim>\<open>output/2025-07-15.html\<close>.
\<close>

theorem page_written_without_payload:
  "generate_static_page cpython ''2025-07-15''
       (PDict [(''papers'', PList []), (''total_papers'', PInt 1), (''date'', PStr ''2025-07-15'')])
       bare_template = Inr bare_template
   \<and> build_static_site cpython (Some full_db) (Some bare_template) (Some ''2025-07-15'') None
       = (None, [(''output/2025-07-15.html'', bare_template)])"
proof
  have t: "substitute_titles ''2025-07-15'' bare_template = bare_template"
    by (rule substitute_titles_absent) (rule bare_template_absent)+
  show "generate_static_page cpython ''2025-07-15''
       (PDict [(''papers'', PList []), (''total_papers'', PInt 1), (''date'', PStr ''2025-07-15'')])
       bare_template = Inr bare_template"
    by (simp only: generate_static_page_titles t replace_absent[OF bare_template_absent(4)])
  obtain kvs where "builder_format_paper_data cpython dated_row = Inr (PDict kvs)"
    using dated_row_builder by blast
  then have f: "format_rows cpython (replicate 25 dated_row) = Inr (replicate 25 (PDict kvs))"
    by (rule format_rows_replicate)
  have "build_static_site cpython (Some full_db) (Some bare_template) (Some ''2025-07-15'') None
          = (None, [(''output/'' @ ''2025-07-15'' @ ''.html'',
                     substitute_titles ''2025-07-15'' bare_template)])"
    by (rule build_without_placeholder[OF _ _ _ f])
      (simp_all add: full_db_def t bare_template_absent(4))
  then show "build_static_site cpython (Some full_db) (Some bare_template)
               (Some ''2025-07-15'') None
             = (None, [(''output/2025-07-15.html'', bare_template)])"
    by (simp add: t)
qed

text \<open>
  C2. Corrected. \<^verbatim>\<open>generate_static_page\<close> raises for no template: it returns the
  template with the titles put in and every \<^verbatim>\<open><!--DATA_HERE-->\<close> replaced by the
  serialized payload. When the template with the titles put in does not contain
  \<^verbatim>\<open><!--DATA_HERE-->\<close>, that text is returned without the payload (the template itself,
  if it contains no title placeholder either), and \<^verbatim>\<open>build_static_site\<close>, for a date
  whose papers all format, writes it to \<^verbatim>\<open>output/<date>.html\<close> and ends without an
  exception.
\<close>

theorem missing_placeholder_ignored:
  "generate_static_page rt date paper_data template_content
     = Inr (replace ''<!--DATA_HERE-->'' (safe_json_dumps rt paper_data)
              (substitute_titles date template_content))
   \<and> (\<not> contains ''<!--DATA_HERE-->'' (substitute_titles date template_content)
        \<longrightarrow> generate_static_page rt date paper_data template_content
              = Inr (substitute_titles date template_content))
   \<and> (\<not> contains ''PLACEHOLDER_TITLE'' template_content
       \<and> \<not> contains ''PLACEHOLDER_MOBILE_TITLE'' template_content
       \<and> \<not> contains ''PLACEHOLDER_DESKTOP_TITLE'' template_content
       \<and> \<not> contains ''<!--DATA_HERE-->'' template_content
        \<longrightarrow> generate_static_page rt date paper_data template_content = Inr template_content)
   \<and> (date \<noteq> [] \<and> db_papers db date = Some rows \<and> rows \<noteq> []
       \<and> format_rows rt rows = Inr papers
       \<and> \<not> contains ''<!--DATA_HERE-->'' (substitute_titles date template_content)
        \<longrightarrow> build_static_site rt (Some db) (Some template_content) (Some date) None
              = (None, [(''output/'' @ date @ ''.html'',
                         substitute_titles date template_content)]))"
proof (intro conjI impI)
  show "generate_static_page rt date paper_data template_content
     = Inr (replace ''<!--DATA_HERE-->'' (safe_json_dumps rt paper_data)
              (substitute_titles date template_content))"
    by (rule generate_static_page_titles)
  show "generate_static_page rt date paper_data template_content
          = Inr (substitute_titles date template_content)"
    if "\<not> contains ''<!--DATA_HERE-->'' (substitute_titles date template_content)"
    by (simp only: generate_static_page_titles replace_absent[OF that])
  show "generate_static_page rt date paper_data template_content = Inr template_content"
    if a: "\<not> contains ''PLACEHOLDER_TITLE'' template_content
       \<and> \<not> contains ''PLACEHOLDER_MOBILE_TITLE'' template_content
       \<and> \<not> contains ''PLACEHOLDER_DESKTOP_TITLE'' template_content
       \<and> \<not> contains ''<!--DATA_HERE-->'' template_content"
  proof -
    have t: "substitute_titles date template_content = template_content"
      using a by (intro substitute_titles_absent) simp_all
    from a have d: "\<not> contains ''<!--DATA_HERE-->'' template_content" by simp
    show ?thesis
      by (simp only: generate_static_page_titles t replace_absent[OF d])
  qed
  show "build_static_site rt (Some db) (Some template_content) (Some date) None
              = (None, [(''output/'' @ date @ ''.html'',
                         substitute_titles date template_content)])"
    if "date \<noteq> [] \<and> db_papers db date = Some rows \<and> rows \<noteq> []
       \<and> format_rows rt rows = Inr papers
       \<and> \<not> contains ''<!--DATA_HERE-->'' (substitute_titles date template_content)"
    using that by (intro build_without_placeholder[where rows = rows and papers = papers]) simp_all
qed

theorem missing_placeholder_ignored_witness:
  "generate_static_page cpython ''2025-07-15'' PNone bare_template = Inr bare_template
   \<and> generate_static_page cpython ''2025-07-15'' PNone ''<h1>PLACEHOLDER_TITLE</h1>''
       = Inr ''<h1>15 July 2025</h1>''
   \<and> build_static_site cpython (Some full_db) (Some ''<h1>PLACEHOLDER_TITLE</h1>'')
         (Some ''2025-07-15'') None
       = (None, [(''output/2025-07-15.html'', ''<h1>15 July 2025</h1>'')])"
proof -
  have t: "substitute_titles ''2025-07-15'' ''<h1>PLACEHOLDER_TITLE</h1>'' = ''<h1>15 July 2025</h1>''"
    by code_simp
  have c: "\<not> contains ''<!--DATA_HERE-->'' ''<h1>15 July 2025</h1>''"
    by code_simp
  obtain kvs where "builder_format_paper_data cpython dated_row = Inr (PDict kvs)"
    using dated_row_builder by blast
  then have f: "format_rows cpython (replicate 25 dated_row) = Inr (replicate 25 (PDict kvs))"
    by (rule format_rows_replicate)
  have m: "db_papers full_db ''2025-07-15'' = Some (replicate 25 dated_row)"
    by (simp add: full_db_def)
  note w = missing_placeholder_ignored[of cpython "''2025-07-15''" PNone _
      full_db "replicate 25 dated_row" "replicate 25 (PDict kvs)"]
  have "generate_static_page cpython ''2025-07-15'' PNone bare_template = Inr bare_template"
    using w[of bare_template, THEN conjunct2, THEN conjunct2, THEN conjunct1]
      bare_template_absent by simp
  moreover
  have "generate_static_page cpython ''2025-07-15'' PNone ''<h1>PLACEHOLDER_TITLE</h1>''
          = Inr ''<h1>15 July 2025</h1>''"
    using w[of "''<h1>PLACEHOLDER_TITLE</h1>''", THEN conjunct2, THEN conjunct1] c
    by (simp only: t) simp
  moreover
  have "build_static_site cpython (Some full_db) (Some ''<h1>PLACEHOLDER_TITLE</h1>'')
          (Some ''2025-07-15'') None
        = (None, [(''output/2025-07-15.html'', ''<h1>15 July 2025</h1>'')])"
    using w[of "''<h1>PLACEHOLDER_TITLE</h1>''", THEN conjunct2, THEN conjunct2, THEN conjunct2]
      c f m
    by (simp only: t) simp
  ultimately show ?thesis by simp
qed

end
